theory Spec2Isabelle
  imports Complex_Main "HOL-Library.Word"
begin

section \<open>Machine types of the ATmega328P sketch\<close>

text \<open>
  The sketch runs on an Arduino Nano (ATmega328P, avr-gcc): \<^verbatim>\<open>unsigned long\<close> is a
  32-bit unsigned integer whose arithmetic wraps modulo \<open>2 ^ 32\<close>, \<^verbatim>\<open>int\<close> is a
  16-bit signed integer, and an EEPROM cell is one byte.
\<close>

type_synonym u32 = "32 word"
type_synonym u8 = "8 word"

text \<open>Conversion of an \<^verbatim>\<open>unsigned long\<close> to \<^verbatim>\<open>int\<close>: the low 16 bits, read as two's complement.\<close>

definition to_int16 :: "u32 \<Rightarrow> int" where
  "to_int16 x = sint (ucast x :: 16 word)"

text \<open>
  The value of an \<^verbatim>\<open>int\<close> expression: avr-gcc keeps the low 16 bits of the exact result,
  read as two's complement.
\<close>

definition int16 :: "int \<Rightarrow> int" where
  "int16 k = sint (word_of_int k :: 16 word)"

text \<open>C integer division truncates towards zero.\<close>

definition c_div :: "int \<Rightarrow> int \<Rightarrow> int" where
  "c_div a b = sgn a * sgn b * (\<bar>a\<bar> div \<bar>b\<bar>)"

text \<open>
  \<^verbatim>\<open>float\<close> is IEEE 754 binary32. A float value is modelled by the real number it
  denotes; an arithmetic operation yields the exact result rounded to the nearest
  binary32 value, ties to the even significand. The unit in the last place of \<open>x\<close> is
  \<open>2\<close> to the power \<open>\<lfloor>log\<^sub>2 \<bar>x\<bar>\<rfloor> - 23\<close>, and \<open>2\<close> to the power \<open>-149\<close> for subnormal numbers.
  Overflow to infinity is not modelled: the distances stay below 401.
\<close>

definition round_even :: "real \<Rightarrow> int" where
  "round_even r =
     (let f = \<lfloor>r\<rfloor>
      in if r - of_int f < 1 / 2 then f
         else if r - of_int f > 1 / 2 then f + 1
         else if even f then f else f + 1)"

definition f32 :: "real \<Rightarrow> real" where
  "f32 x =
     (if x = 0 then 0
      else (let e = max (- 149) (\<lfloor>log 2 \<bar>x\<bar>\<rfloor> - 23)
            in of_int (round_even (x / 2 powi e)) * 2 powi e))"

text \<open>Conversion of a \<^verbatim>\<open>float\<close> to \<^verbatim>\<open>int\<close> drops the fraction.\<close>

definition c_trunc :: "real \<Rightarrow> int" where
  "c_trunc r = (if r \<ge> 0 then \<lfloor>r\<rfloor> else \<lceil>r\<rceil>)"

text \<open>The levels of a digital pin.\<close>

definition LOW :: int where "LOW = 0"
definition HIGH :: int where "HIGH = 1"

section \<open>Text output\<close>

text \<open>One call of \<^verbatim>\<open>Serial.print\<close> or \<^verbatim>\<open>Serial.println\<close>.\<close>

datatype out = Print string | Println string

definition digit_char :: "nat \<Rightarrow> char" where
  "digit_char d = ''0123456789'' ! d"

text \<open>Decimal digits of an unsigned number, as \<^verbatim>\<open>Serial.println(unsigned long)\<close> and \<^verbatim>\<open>%lu\<close> print them.\<close>

fun dec :: "nat \<Rightarrow> string" where
  "dec n = (if n < 10 then [digit_char n] else dec (n div 10) @ [digit_char (n mod 10)])"

declare dec.simps [simp del]

definition pad_left :: "char \<Rightarrow> nat \<Rightarrow> string \<Rightarrow> string" where
  "pad_left c w s = replicate (w - length s) c @ s"

text \<open>\<^verbatim>\<open>%5lu\<close>: at least five characters, padded with blanks on the left.\<close>

definition fmt_5lu :: "u32 \<Rightarrow> string" where
  "fmt_5lu x = pad_left (CHR '' '') 5 (dec (unat x))"

text \<open>\<^verbatim>\<open>%02d\<close>: at least two characters, padded with zeros; a sign counts towards the width.\<close>

definition fmt_02d :: "int \<Rightarrow> string" where
  "fmt_02d i = (if i < 0 then ''-'' @ dec (nat (- i)) else pad_left (CHR ''0'') 2 (dec (nat i)))"

text \<open>
  \<^verbatim>\<open>char* ConvertSectoDay(unsigned long n)\<close>: the quotients are computed in
  \<^verbatim>\<open>unsigned long\<close>; hours, minutes and seconds are stored in \<^verbatim>\<open>int\<close> variables and
  printed by \<^verbatim>\<open>sprintf(date_buffer, "%5lud%02d:%02d:%02d", ...)\<close>.
\<close>

definition ConvertSectoDay :: "u32 \<Rightarrow> string" where
  "ConvertSectoDay n =
     (let days = n div 86400;
          hours = to_int16 (n mod 86400 div 3600);
          minutes = to_int16 (n mod 86400 mod 3600 div 60);
          seconds = to_int16 (n mod 86400 mod 3600 mod 60)
      in fmt_5lu days @ ''d'' @ fmt_02d hours @ '':'' @ fmt_02d minutes @ '':'' @ fmt_02d seconds)"

section \<open>Program state\<close>

text \<open>
  The global variables of the sketch that the modelled functions read or write, under
  their source names, together with the devices they drive:
  \<^item> \<open>now_ms\<close> is the value \<^verbatim>\<open>millis()\<close> returns. Inside one modelled function only
    \<^verbatim>\<open>delay\<close> advances it; between two calls the environment may set it to anything.
  \<^item> \<open>serial\<close> is the Serial output so far, \<open>oled\<close> the text printed into the display
    buffer since the last \<^verbatim>\<open>clearDisplay\<close>.
  \<^item> \<open>disp_on\<close> and \<open>disp_dim\<close> are the power and brightness state of the SSD1306
    (\<^verbatim>\<open>SSD1306_DISPLAYON/OFF\<close>, \<^verbatim>\<open>display.dim\<close>).
  \<^item> \<open>eeprom\<close> is the content of the EEPROM and \<open>eeprom_writes\<close> the number of physical
    cell writes performed so far.
  Distances are \<^verbatim>\<open>float\<close> in the source: the fields hold the real numbers that the float
  values denote (the readings are never NaN), a comparison with an \<^verbatim>\<open>int\<close> is exact, and
  arithmetic on them is rounded by \<open>f32\<close>. The \<^verbatim>\<open>int\<close> variables hold their values as
  integers, and arithmetic on them wraps by \<open>int16\<close>.
  The LED pins and the beeper are not part of the state: of \<^verbatim>\<open>Beep\<close> only the time it
  takes is modelled. Of the Serial output only the lines of the uptime functions are
  modelled.
\<close>

record state =
  now_ms :: u32
  serial :: "out list"
  oled :: "string list"
  disp_on :: bool
  disp_dim :: bool
  eeprom :: "int \<Rightarrow> u8"
  eeprom_writes :: nat
  counter :: int
  light1s :: int
  light0 :: int
  light1 :: int
  light2 :: int
  light3 :: int
  distance :: real
  distance1 :: real
  last_dist :: real
  move_ps :: real
  last_move :: u32
  last_outofrange :: u32
  leds_off :: int
  dimmed :: int
  start_timeout :: u32
  timeout :: int
  c_dst :: u32
  c_dwt :: u32
  c_uptime :: u32
  E_value :: int
  butEEState :: int
  butEETimePressed :: u32
  butmode :: int
  start_for :: u32
  currentStateCLK :: int
  previousStateCLK :: int
  ts_short :: string
  displaysleeping :: int
  dst_start :: u32
  dst_end :: u32
  dst_dur :: u32
  up_mi :: u32
  up_mi_old :: u32
  diff_mi :: u32
  diff_sec :: u32
  up_sec_old :: u32
  up_sec :: u32

text \<open>\<^verbatim>\<open>unsigned long up_mi_max = 4294967294;\<close> is never assigned again.\<close>

definition up_mi_max :: u32 where
  "up_mi_max = 4294967294"

text \<open>The configuration of the active \<^verbatim>\<open>UNIT_EU\<close> block.\<close>

definition light0s :: int where "light0s = 15"
definition light2s :: int where "light2s = 30"
definition light3s :: int where "light3s = 30"
definition range_min :: int where "range_min = 18"
definition range_max :: int where "range_max = 150"
definition range_diff :: int where "range_diff = 4"
definition warning_limit :: int where "warning_limit = 30"
definition LED_TIMEOUT :: int where "LED_TIMEOUT = 15"
definition DISPLAY_TIMEOUT :: int where "DISPLAY_TIMEOUT = 15"
definition E_address :: int where "E_address = 0"
definition unit_str :: string where "unit_str = ''cm''"
definition PROG_VERS :: string where "PROG_VERS = ''2.11''"

text \<open>\<^verbatim>\<open>delay(ms)\<close>: the millisecond counter goes on while the program waits.\<close>

definition delay :: "u32 \<Rightarrow> state \<Rightarrow> state" where
  "delay d s = s\<lparr>now_ms := now_ms s + d\<rparr>"

definition serial_out :: "out list \<Rightarrow> state \<Rightarrow> state" where
  "serial_out xs s = s\<lparr>serial := serial s @ xs\<rparr>"

section \<open>Uptime accounting\<close>

definition millis_overflow_msg :: "u32 \<Rightarrow> out list" where
  "millis_overflow_msg v = [Print ''1: millis overflow has happened -> '', Println (dec (unat v))]"

definition up_sec_overflow_msg :: "u32 \<Rightarrow> out list" where
  "up_sec_overflow_msg v = [Print ''1: up_sec overflow has happened -> '', Println (dec (unat v))]"

text \<open>\<^verbatim>\<open>void update_up_sec_from_millis()\<close>, statement by statement (DEBUG is not defined).\<close>

definition update_up_sec_from_millis :: "state \<Rightarrow> state" where
  "update_up_sec_from_millis s0 =
     (let s1 = s0\<lparr>up_sec_old := up_sec s0\<rparr>;
          s2 = s1\<lparr>up_mi := now_ms s1\<rparr>;
          s3 = (if up_mi s2 \<ge> up_mi_old s2
                then s2\<lparr>diff_mi := up_mi s2 - up_mi_old s2\<rparr>
                else serial_out (millis_overflow_msg (up_mi s2))
                       (s2\<lparr>diff_mi := up_mi_max - up_mi_old s2 + up_mi s2\<rparr>));
          s4 = s3\<lparr>up_mi_old := up_mi s3\<rparr>;
          s5 = s4\<lparr>diff_sec := diff_mi s4 div 1000\<rparr>;
          s6 = s5\<lparr>up_sec := up_sec s5 + diff_sec s5\<rparr>;
          s7 = (if up_sec s6 < up_sec_old s6
                then serial_out (up_sec_overflow_msg (up_sec s6)) s6
                else s6)
      in s7\<lparr>up_sec_old := up_sec s7\<rparr>)"

section \<open>Display power and sleep-time accounting\<close>

text \<open>\<^verbatim>\<open>void reset_LEDTimeout()\<close>.\<close>

definition reset_LEDTimeout :: "state \<Rightarrow> state" where
  "reset_LEDTimeout s0 =
     (let s1 = s0\<lparr>start_timeout := 0\<rparr>;
          s2 = s1\<lparr>timeout := 0\<rparr>;
          s3 = s2\<lparr>leds_off := 0\<rparr>;
          s4 = s3\<lparr>disp_dim := False\<rparr>
      in s4\<lparr>dimmed := 0\<rparr>)"

text \<open>\<^verbatim>\<open>void sleepDisplay(Adafruit_SSD1306* display)\<close>.\<close>

definition sleepDisplay :: "state \<Rightarrow> state" where
  "sleepDisplay s0 =
     (let s1 = s0\<lparr>disp_on := False\<rparr>;
          s2 = s1\<lparr>displaysleeping := 1\<rparr>;
          s3 = update_up_sec_from_millis s2
      in s3\<lparr>dst_start := up_sec s3\<rparr>)"

text \<open>\<^verbatim>\<open>void go_sleepDisplay()\<close>: the announcement, one second of waiting, then power off.\<close>

definition go_sleepDisplay :: "state \<Rightarrow> state" where
  "go_sleepDisplay s0 =
     (if displaysleeping s0 = 0
      then (let s1 = s0\<lparr>displaysleeping := 1\<rparr>;
                s2 = s1\<lparr>oled := [''Display'' @ [CHR 0x0A] @ ''--> Sleep'']\<rparr>;
                s3 = delay 1000 s2
            in sleepDisplay s3)
      else s0)"

text \<open>\<^verbatim>\<open>void wakeDisplay(Adafruit_SSD1306* display)\<close>.\<close>

definition wakeDisplay :: "state \<Rightarrow> state" where
  "wakeDisplay s0 =
     (let s1 = s0\<lparr>disp_dim := False\<rparr>;
          s2 = s1\<lparr>dimmed := 0\<rparr>
      in if displaysleeping s2 = 1
         then (let s3 = s2\<lparr>disp_on := True\<rparr>;
                   s4 = s3\<lparr>displaysleeping := 0\<rparr>;
                   s5 = update_up_sec_from_millis s4;
                   s6 = s5\<lparr>dst_end := up_sec s5\<rparr>;
                   s7 = (if dst_end s6 > dst_start s6
                         then (let t = s6\<lparr>dst_dur := dst_end s6 - dst_start s6\<rparr>
                               in t\<lparr>c_dst := c_dst t + dst_dur t\<rparr>)
                         else s6);
                   s8 = s7\<lparr>dst_start := dst_end s7\<rparr>
               in s8\<lparr>last_outofrange := now_ms s8\<rparr>)
         else s2)"

text \<open>
  \<^verbatim>\<open>void display_uptime_info()\<close>: the wake time is the plain \<^verbatim>\<open>unsigned long\<close>
  difference \<^verbatim>\<open>c_dwt = c_uptime - c_dst\<close>; the three durations go to Serial and to the
  display buffer.
\<close>

definition display_uptime_info :: "state \<Rightarrow> state" where
  "display_uptime_info s0 =
     (let s1 = update_up_sec_from_millis s0;
          s2 = s1\<lparr>c_uptime := up_sec s1\<rparr>;
          s3 = s2\<lparr>oled := []\<rparr>;
          s4 = s3\<lparr>c_dwt := c_uptime s3 - c_dst s3\<rparr>;
          s5 = serial_out
                 [Print ''Uptime: '', Print (ConvertSectoDay (c_uptime s4)),
                  Print ''  DispSlp: '', Print (ConvertSectoDay (c_dst s4)),
                  Print ''  DispWake: '', Println (ConvertSectoDay (c_dwt s4))] s4
      in s5\<lparr>oled := oled s5 @
                 [''Uptime '', ConvertSectoDay (c_uptime s5),
                  [CHR 0x0A] @ ''DispSlp'', ConvertSectoDay (c_dst s5),
                  [CHR 0x0A] @ ''DispWak'', ConvertSectoDay (c_dwt s5)]\<rparr>)"

section \<open>Thresholds and indicator tier\<close>

text \<open>
  The block "Prepare distance compare values" of \<^verbatim>\<open>loop()\<close>: the stop distance
  \<open>light1\<close> is the stored value plus the encoder offset in 16-bit arithmetic, kept
  within \<open>range_min .. range_max\<close>; then the yellow, green and warning thresholds.
\<close>

definition prepare_lights :: "state \<Rightarrow> state" where
  "prepare_lights s0 =
     (let s1 = s0\<lparr>light1 := int16 (counter s0 + light1s s0)\<rparr>;
          s2 = (if light1 s1 < range_min
                then (let t = s1\<lparr>light1 := range_min\<rparr>
                      in t\<lparr>counter := int16 (light1 t - light1s t)\<rparr>)
                else s1);
          s3 = (if light1 s2 > range_max
                then (let t = s2\<lparr>light1 := range_max\<rparr>
                      in t\<lparr>counter := int16 (light1 t - light1s t)\<rparr>)
                else s2);
          s4 = s3\<lparr>light2 := int16 (light1 s3 + light2s)\<rparr>;
          s5 = s4\<lparr>light3 := int16 (light2 s4 + light3s)\<rparr>;
          s6 = (if light1 s5 < warning_limit
                then s5\<lparr>light0 := c_div (light1 s5) 2\<rparr>
                else s5\<lparr>light0 := int16 (light1 s5 - light0s)\<rparr>)
      in s6\<lparr>distance1 := distance s6\<rparr>)"

datatype tier = WARNING | RED | YELLOW | GREEN | OFF

text \<open>
  The chain "Check the distance and light on the corresponding LEDs" at the end of
  \<^verbatim>\<open>loop()\<close>; the result names the branch taken (all three LEDs flashing, red,
  yellow, green, or all off).
\<close>

definition led_tier :: "state \<Rightarrow> tier" where
  "led_tier s =
     (if distance s < real_of_int (light0 s) \<and> leds_off s = 0 then WARNING
      else if distance s < real_of_int (light1 s) \<and> leds_off s = 0 then RED
      else if distance s \<ge> real_of_int (light1 s) \<and> distance s < real_of_int (light2 s)
              \<and> leds_off s = 0 then YELLOW
      else if distance s \<ge> real_of_int (light2 s) \<and> distance s < real_of_int (light3 s)
              \<and> leds_off s = 0 then GREEN
      else OFF)"

section \<open>Timeout handling\<close>

text \<open>
  The timer statements that both branches of the section "TIMEOUT handling" contain:
  start the timer if \<open>start_timeout\<close> is 0, then
  \<^verbatim>\<open>timeout = abs(millis() - start_timeout) / 1000\<close>. \<^verbatim>\<open>abs\<close> of an \<^verbatim>\<open>unsigned long\<close> is
  the value itself, and the quotient is stored in the \<^verbatim>\<open>int\<close> variable \<open>timeout\<close>.
\<close>

definition stationary_timer :: "state \<Rightarrow> state" where
  "stationary_timer s0 =
     (let s1 = (if start_timeout s0 = 0
                then (let t = s0\<lparr>start_timeout := now_ms s0\<rparr> in t\<lparr>timeout := 0\<rparr>)
                else s0)
      in s1\<lparr>timeout := to_int16 ((now_ms s1 - start_timeout s1) div 1000)\<rparr>)"

text \<open>
  The section "TIMEOUT handling" of \<^verbatim>\<open>loop()\<close>: within the green range the
  stationary timer runs while the car does not move; out of range the display is dimmed
  and goes to sleep after \<open>DISPLAY_TIMEOUT\<close>. The speed is
  \<^verbatim>\<open>move_ps = abs(last_dist - distance) * 2\<close> in float arithmetic.
\<close>

definition timeout_handling :: "state \<Rightarrow> state" where
  "timeout_handling s0 =
     (if distance s0 < real_of_int (light3 s0)
      then (if now_ms s0 - last_move s0 > 500
            then (let s1 = s0\<lparr>last_outofrange := now_ms s0\<rparr>;
                      s2 = s1\<lparr>last_move := now_ms s1\<rparr>;
                      s3 = s2\<lparr>move_ps := f32 (\<bar>f32 (last_dist s2 - distance s2)\<bar> * 2)\<rparr>;
                      s4 = s3\<lparr>last_dist := distance s3\<rparr>
                  in if move_ps s4 < real_of_int range_diff
                     then (let s5 = (if timeout s4 > 998
                                     then s4\<lparr>start_timeout :=
                                               now_ms s4 - word_of_int ((LED_TIMEOUT + 1) * 1000)\<rparr>
                                     else s4);
                               s6 = stationary_timer s5;
                               s7 = (if timeout s6 > LED_TIMEOUT
                                     then (let t1 = s6\<lparr>leds_off := 1\<rparr>;
                                               t2 = t1\<lparr>disp_dim := True\<rparr>
                                           in t2\<lparr>dimmed := 1\<rparr>)
                                     else wakeDisplay (s6\<lparr>leds_off := 0\<rparr>))
                           in if timeout s7 > LED_TIMEOUT + DISPLAY_TIMEOUT
                              then go_sleepDisplay s7
                              else s7)
                     else wakeDisplay (reset_LEDTimeout s4))
            else s0)
      else (let s1 = s0\<lparr>move_ps := - 1\<rparr>;
                s2 = s1\<lparr>disp_dim := True\<rparr>;
                s3 = s2\<lparr>dimmed := 1\<rparr>
            in if now_ms s3 - last_outofrange s3 > word_of_int (DISPLAY_TIMEOUT * 1000)
               then go_sleepDisplay (s3\<lparr>last_outofrange := 0\<rparr>)
               else stationary_timer s3))"

section \<open>Buttons\<close>

text \<open>
  The encoder push button, for \<^verbatim>\<open>switchState == LOW\<close>. \<^verbatim>\<open>Beep(1)\<close> takes 180 ms.
\<close>

definition encoder_switch_pressed :: "state \<Rightarrow> state" where
  "encoder_switch_pressed s0 =
     (if displaysleeping s0 = 1
      then wakeDisplay (reset_LEDTimeout s0)
      else (let s1 = s0\<lparr>counter :=
                        int16 (c_trunc (f32 (distance1 s0 - real_of_int (light1s s0))))\<rparr>;
                s2 = reset_LEDTimeout s1
            in delay 180 s2))"

text \<open>
  Modelled from the spec: the Arduino EEPROM library is not part of the sources. The
  storage is "read(address)->byte and write-if-changed(address, byte)": \<^verbatim>\<open>EEPROM.read\<close>
  returns the cell, \<^verbatim>\<open>EEPROM.update\<close> takes the value as a byte and writes the cell, one
  physical write, only if the cell holds a different byte.
\<close>

definition EEPROM_read :: "int \<Rightarrow> state \<Rightarrow> int" where
  "EEPROM_read a s = uint (eeprom s a)"

definition EEPROM_update :: "int \<Rightarrow> int \<Rightarrow> state \<Rightarrow> state" where
  "EEPROM_update a v s =
     (if eeprom s a \<noteq> word_of_int v
      then s\<lparr>eeprom := (eeprom s)(a := word_of_int v), eeprom_writes := eeprom_writes s + 1\<rparr>
      else s)"

text \<open>\<^verbatim>\<open>String(int)\<close>.\<close>

definition String_int :: "int \<Rightarrow> string" where
  "String_int i = (if i < 0 then ''-'' @ dec (nat (- i)) else dec (nat i))"

text \<open>
  The STORE-TO-EEPROM button, for \<^verbatim>\<open>butSEEState == LOW\<close>. \<^verbatim>\<open>Beep(2)\<close> takes 360 ms and
  \<^verbatim>\<open>Beep(5)\<close> 900 ms.
\<close>

definition store_button_pressed :: "state \<Rightarrow> state" where
  "store_button_pressed s0 =
     (if displaysleeping s0 = 1
      then delay 2000 (wakeDisplay (reset_LEDTimeout s0))
      else (let s1 = reset_LEDTimeout s0;
                s2 = s1\<lparr>E_value := EEPROM_read E_address s1\<rparr>;
                s3 = s2\<lparr>oled := []\<rparr>;
                s4 = (if E_value s3 \<noteq> light1 s3
                      then (let t1 = EEPROM_update E_address (light1 s3) s3;
                                t2 = t1\<lparr>oled := oled t1 @
                                       [''Dist='' @ String_int (light1 t1) @ unit_str @
                                        [CHR 0x0A] @ ''--> EEPROM'']\<rparr>
                            in delay 360 t2)
                      else (let t1 = s3\<lparr>oled := oled s3 @
                                       [''Dist='' @ String_int (light1 s3) @ unit_str @
                                        [CHR 0x0A] @ ''not saved'']\<rparr>
                            in delay 900 t1));
                s5 = delay 5000 s4
            in reset_LEDTimeout s5))"

text \<open>
  \<^verbatim>\<open>void update()\<close>, the interrupt routine of the rotary encoder; \<open>clk\<close> and \<open>dt\<close> are the
  levels read from the pins CLK and DT.
\<close>

definition update :: "int \<Rightarrow> int \<Rightarrow> state \<Rightarrow> state" where
  "update clk dt s0 =
     (let s1 = s0\<lparr>currentStateCLK := clk\<rparr>;
          s2 = (if previousStateCLK s1 = LOW \<and> currentStateCLK s1 = HIGH
                then (if displaysleeping s1 = 1
                      then (let t1 = s1\<lparr>start_timeout := 0\<rparr>;
                                t2 = t1\<lparr>timeout := 0\<rparr>
                            in t2\<lparr>leds_off := 0\<rparr>)
                      else (let t0 = (if dt = HIGH
                                      then s1\<lparr>counter := int16 (counter s1 + 1)\<rparr>
                                      else s1\<lparr>counter := int16 (counter s1 - 1)\<rparr>);
                                t1 = t0\<lparr>start_timeout := 0\<rparr>;
                                t2 = t1\<lparr>timeout := 0\<rparr>
                            in t2\<lparr>leds_off := 0\<rparr>))
                else s1)
      in s2\<lparr>previousStateCLK := currentStateCLK s2\<rparr>)"

text \<open>
  \<^verbatim>\<open>void Get_Button()\<close>; \<open>pin\<close> is the level read from the READ-FROM-EEPROM button. The
  result is \<open>butmode\<close>: 0 not pressed, 1 short press, 2 long press.
\<close>

definition Get_Button :: "int \<Rightarrow> state \<Rightarrow> state" where
  "Get_Button pin s0 =
     (let s1 = s0\<lparr>butEEState := pin\<rparr>
      in if butEEState s1 = LOW
         then (if butEETimePressed s1 = 0
               then s1\<lparr>butEETimePressed := now_ms s1\<rparr>
               else (if now_ms s1 - butEETimePressed s1 > 3000
                     then (let t = s1\<lparr>butmode := 2\<rparr> in t\<lparr>butEETimePressed := 0\<rparr>)
                     else s1))
         else (if butEETimePressed s1 > 0
               then (let t = (if now_ms s1 - butEETimePressed s1 > 3000
                              then s1\<lparr>butmode := 2\<rparr>
                              else if now_ms s1 - butEETimePressed s1 < 1000
                              then s1\<lparr>butmode := 1\<rparr>
                              else s1\<lparr>butmode := 0\<rparr>)
                     in t\<lparr>butEETimePressed := 0\<rparr>)
               else s1\<lparr>butmode := 0\<rparr>))"

text \<open>
  The polling loops. Each round of a loop reads the button once; the list gives, for
  the rounds in turn, the clock and the pin level of that round. A loop that has used
  up the list without leaving is still running: the result is \<open>None\<close>.

  \<^verbatim>\<open>void Clear_Button()\<close> polls until \<open>butmode\<close> is 0.
\<close>

fun Clear_Button :: "(u32 \<times> int) list \<Rightarrow> state \<Rightarrow> state option" where
  "Clear_Button [] s = None"
| "Clear_Button ((t, pin) # rounds) s =
     (let s1 = Get_Button pin (s\<lparr>now_ms := t\<rparr>)
      in if butmode s1 = 0 then Some s1 else Clear_Button rounds s1)"

text \<open>
  The two loops \<^verbatim>\<open>for (;;) { Get_Button(); if (butmode == 1) break;
  if ((millis() - start_for) > limit) break; }\<close> of the long press.
\<close>

fun wait_click :: "u32 \<Rightarrow> (u32 \<times> int) list \<Rightarrow> state \<Rightarrow> state option" where
  "wait_click limit [] s = None"
| "wait_click limit ((t, pin) # rounds) s =
     (let s1 = Get_Button pin (s\<lparr>now_ms := t\<rparr>)
      in if butmode s1 = 1 then Some s1
         else if now_ms s1 - start_for s1 > limit then Some s1
         else wait_click limit rounds s1)"

text \<open>\<^verbatim>\<open>void display_prog_info()\<close>.\<close>

definition display_prog_info :: "state \<Rightarrow> state" where
  "display_prog_info s =
     s\<lparr>oled := [''Program information'', ''Parking Assist V'', PROG_VERS, ts_short s]\<rparr>"

text \<open>
  The READ-FROM-EEPROM button in \<^verbatim>\<open>loop()\<close>, from \<^verbatim>\<open>Get_Button()\<close> to the end of the
  chain on \<open>butmode\<close>: a press that finds the display asleep only wakes it; otherwise a
  short press reloads the stop distance from the EEPROM and a long press shows the
  program information and, after a click, the uptime report. \<open>pin\<close> is the level at the
  first \<^verbatim>\<open>Get_Button()\<close>, \<open>clear\<close>, \<open>wait1\<close> and \<open>wait2\<close> are the rounds of
  \<^verbatim>\<open>Clear_Button()\<close> and of the two waiting loops. \<^verbatim>\<open>Beep(3)\<close> takes 540 ms.
\<close>

definition read_short_press :: "state \<Rightarrow> state" where
  "read_short_press s0 =
     (let s1 = reset_LEDTimeout s0;
          s2 = s1\<lparr>E_value := EEPROM_read E_address s1\<rparr>;
          s3 = s2\<lparr>light1s := E_value s2\<rparr>;
          s4 = s3\<lparr>counter := 0\<rparr>;
          s5 = s4\<lparr>oled := [''Dist='' @ String_int (light1s s4) @ unit_str @
                              [CHR 0x0A] @ ''<-- EEPROM'']\<rparr>;
          s6 = delay 180 s5;
          s7 = delay 5000 s6
      in reset_LEDTimeout s7)"

definition read_long_press ::
    "(u32 \<times> int) list \<Rightarrow> (u32 \<times> int) list \<Rightarrow> (u32 \<times> int) list \<Rightarrow> state \<Rightarrow> state option" where
  "read_long_press clear wait1 wait2 s0 =
     (let s1 = reset_LEDTimeout s0;
          s2 = display_prog_info s1;
          s3 = delay 540 s2
      in case Clear_Button clear s3 of
           None \<Rightarrow> None
         | Some s4 \<Rightarrow>
             (case wait_click 15000 wait1 (s4\<lparr>start_for := now_ms s4\<rparr>) of
                None \<Rightarrow> None
              | Some s5 \<Rightarrow>
                  (case (if butmode s5 = 1
                         then (let t1 = display_uptime_info s5;
                                   t2 = delay 180 t1
                               in wait_click 60000 wait2 (t2\<lparr>start_for := now_ms t2\<rparr>))
                         else Some s5) of
                     None \<Rightarrow> None
                   | Some s6 \<Rightarrow>
                       (let s7 = s6\<lparr>butmode := 0\<rparr>;
                            s8 = delay 180 s7;
                            s9 = reset_LEDTimeout s8
                        in Some (wakeDisplay s9)))))"

definition read_button ::
    "int \<Rightarrow> (u32 \<times> int) list \<Rightarrow> (u32 \<times> int) list \<Rightarrow> (u32 \<times> int) list \<Rightarrow> state
       \<Rightarrow> state option" where
  "read_button pin clear wait1 wait2 s0 =
     (let s1 = Get_Button pin s0
      in case (if butmode s1 > 0 \<and> displaysleeping s1 = 1
               then (case Clear_Button clear (wakeDisplay (reset_LEDTimeout s1)) of
                       None \<Rightarrow> None
                     | Some t \<Rightarrow> Some (t\<lparr>butmode := 0\<rparr>))
               else Some s1) of
           None \<Rightarrow> None
         | Some s2 \<Rightarrow>
             (if butmode s2 = 1 then Some (read_short_press s2)
              else if butmode s2 = 2 then read_long_press clear wait1 wait2 s2
              else Some s2))"

text \<open>
  The global variables as \<^verbatim>\<open>loop()\<close> starts, with the display switched on by
  \<^verbatim>\<open>setup()\<close>, an unused EEPROM and the build time stamp left empty.
\<close>

definition boot :: state where
  "boot = \<lparr>now_ms = 0, serial = [], oled = [], disp_on = True, disp_dim = False,
     eeprom = (\<lambda>a. 255), eeprom_writes = 0, counter = 0, light1s = 30, light0 = 0, light1 = 0,
     light2 = 0, light3 = 0, distance = 0, distance1 = 0, last_dist = 0, move_ps = 0,
     last_move = 0, last_outofrange = 0, leds_off = 0, dimmed = 0, start_timeout = 0,
     timeout = 0, c_dst = 0, c_dwt = 0, c_uptime = 0, E_value = - 1, butEEState = 1,
     butEETimePressed = 0, butmode = 0, start_for = 0, currentStateCLK = 0,
     previousStateCLK = 0, ts_short = [], displaysleeping = 0,
     dst_start = 0, dst_end = 0, dst_dur = 0, up_mi = 0, up_mi_old = 0, diff_mi = 0,
     diff_sec = 0, up_sec_old = 0, up_sec = 0\<rparr>"

section \<open>Vocabulary of the specification\<close>

text \<open>A resync call at which \<^verbatim>\<open>millis()\<close> returns \<open>raw_now\<close>, and a sequence of such calls.\<close>

definition resync :: "u32 \<Rightarrow> state \<Rightarrow> state" where
  "resync raw_now s = update_up_sec_from_millis (s\<lparr>now_ms := raw_now\<rparr>)"

definition resync_all :: "u32 list \<Rightarrow> state \<Rightarrow> state" where
  "resync_all rs s = foldl (\<lambda>t r. resync r t) s rs"

text \<open>
  The delta of the specification, over the integers: the difference of the readings, or
  \<open>(RAW_MAX - last_raw) + raw_now\<close> after a wrap.
\<close>

definition RAW_MAX :: int where
  "RAW_MAX = 4294967294"

definition bridging_delta :: "int \<Rightarrow> int \<Rightarrow> int" where
  "bridging_delta last_raw raw_now =
     (if raw_now \<ge> last_raw then raw_now - last_raw else (RAW_MAX - last_raw) + raw_now)"

text \<open>
  The tier of the specification, as a function of the distance and the stop distance;
  the warning threshold is \<open>stop / 2\<close>, the exact half, below the warning limit.
\<close>

definition warning_threshold :: "int \<Rightarrow> real" where
  "warning_threshold stop =
     (if stop < warning_limit then real_of_int stop / 2 else real_of_int (stop - light0s))"

definition tier_spec :: "real \<Rightarrow> int \<Rightarrow> tier" where
  "tier_spec d stop =
     (if d < warning_threshold stop then WARNING
      else if warning_threshold stop \<le> d \<and> d < real_of_int stop then RED
      else if real_of_int stop \<le> d \<and> d < real_of_int (stop + light2s) then YELLOW
      else if real_of_int (stop + light2s) \<le> d \<and> d < real_of_int (stop + light2s + light3s)
        then GREEN
      else OFF)"

text \<open>The same function with the half of the stop distance rounded down to a whole number.\<close>

definition warning_threshold_floor :: "int \<Rightarrow> int" where
  "warning_threshold_floor stop =
     (if stop < warning_limit then \<lfloor>real_of_int stop / 2\<rfloor> else stop - light0s)"

definition tier_floor :: "real \<Rightarrow> int \<Rightarrow> tier" where
  "tier_floor d stop =
     (if d < real_of_int (warning_threshold_floor stop) then WARNING
      else if real_of_int (warning_threshold_floor stop) \<le> d \<and> d < real_of_int stop then RED
      else if real_of_int stop \<le> d \<and> d < real_of_int (stop + light2s) then YELLOW
      else if real_of_int (stop + light2s) \<le> d \<and> d < real_of_int (stop + light2s + light3s)
        then GREEN
      else OFF)"

text \<open>
  The three power states of the specification, read off the flags of the sketch:
  LEDs enabled and display bright; LEDs suppressed and display dimmed but on; display
  powered off.
\<close>

definition is_AWAKE :: "state \<Rightarrow> bool" where
  "is_AWAKE s \<longleftrightarrow>
     leds_off s = 0 \<and> dimmed s = 0 \<and> \<not> disp_dim s \<and> displaysleeping s = 0 \<and> disp_on s"

definition is_DIMMED :: "state \<Rightarrow> bool" where
  "is_DIMMED s \<longleftrightarrow>
     leds_off s = 1 \<and> dimmed s = 1 \<and> disp_dim s \<and> displaysleeping s = 0 \<and> disp_on s"

definition is_ASLEEP :: "state \<Rightarrow> bool" where
  "is_ASLEEP s \<longleftrightarrow> displaysleeping s = 1 \<and> \<not> disp_on s"

text \<open>
  The display is on, bright or dimmed, whatever the LEDs do: AWAKE and DIMMED are such
  states, and so is the dimming of the display while nothing is in range.
\<close>

definition display_on :: "state \<Rightarrow> bool" where
  "display_on s \<longleftrightarrow> displaysleeping s = 0 \<and> disp_on s"

text \<open>
  A pass of the timeout handling that finds a vehicle in tracking range and not moving:
  the distance is below the outer threshold, the half second between two speed checks is
  over, and the speed the sketch computes in float arithmetic is below \<open>range_diff\<close>.
\<close>

definition not_moving :: "state \<Rightarrow> bool" where
  "not_moving s \<longleftrightarrow>
     distance s < real_of_int (light3 s) \<and> now_ms s - last_move s > 500
     \<and> f32 (\<bar>f32 (last_dist s - distance s)\<bar> * 2) < real_of_int range_diff"

text \<open>
  Such a pass with the stationary timer already running and not yet rebased by the
  998-second guard; and the whole seconds the timer has run.
\<close>

definition stationary_check :: "state \<Rightarrow> bool" where
  "stationary_check s \<longleftrightarrow> not_moving s \<and> timeout s \<le> 998 \<and> start_timeout s \<noteq> 0"

text \<open>Such a pass with the stationary timer reset, as an encoder rotation leaves it.\<close>

definition restart_check :: "state \<Rightarrow> bool" where
  "restart_check s \<longleftrightarrow> not_moving s \<and> timeout s = 0 \<and> start_timeout s = 0"

definition elapsed_stationary :: "state \<Rightarrow> nat" where
  "elapsed_stationary s = unat (now_ms s - start_timeout s) div 1000"

text \<open>The uptime seconds between the start of the sleep window and a wake-up now.\<close>

definition asleep_seconds :: "state \<Rightarrow> u32" where
  "asleep_seconds s =
     (if up_sec (update_up_sec_from_millis s) > dst_start s
      then up_sec (update_up_sec_from_millis s) - dst_start s else 0)"

text \<open>
  A wake-up that leads from \<open>t\<close> to \<open>t'\<close>: the system is AWAKE; if the display was asleep
  the sleep window is closed at the uptime seconds of the wake-up, its seconds are added
  to \<open>c_dst\<close> and the window is re-based; otherwise \<open>c_dst\<close> keeps its value.
\<close>

definition woken_from :: "state \<Rightarrow> state \<Rightarrow> bool" where
  "woken_from t t' \<longleftrightarrow>
     is_AWAKE t'
     \<and> (if is_ASLEEP t
        then c_dst t' = c_dst t + asleep_seconds t
             \<and> dst_end t' = up_sec (update_up_sec_from_millis t) \<and> dst_start t' = dst_end t'
        else c_dst t' = c_dst t)"

text \<open>
  A press of the READ button that \<^verbatim>\<open>Get_Button\<close> registers on this pass, as a short or as
  a long one.
\<close>

definition registered :: "int \<Rightarrow> state \<Rightarrow> bool" where
  "registered pin t \<longleftrightarrow> butmode (Get_Button pin t) = 1 \<or> butmode (Get_Button pin t) = 2"

text \<open>
  The rounds of the polling loops that let them end: two successive rounds of
  \<^verbatim>\<open>Clear_Button\<close> find the button released, and each waiting loop has a round that is
  more than its limit after every round of the loop before it (plus the beep between
  them).
\<close>

fun released_twice :: "(u32 \<times> int) list \<Rightarrow> bool" where
  "released_twice ((t1, p1) # (t2, p2) # rounds) =
     (p1 = HIGH \<and> p2 = HIGH \<or> released_twice ((t2, p2) # rounds))"
| "released_twice [r] = False"
| "released_twice [] = False"

definition expires_after :: "u32 \<Rightarrow> u32 \<Rightarrow> (u32 \<times> int) list \<Rightarrow> (u32 \<times> int) list \<Rightarrow> bool" where
  "expires_after limit gap before rounds \<longleftrightarrow>
     (\<exists>w \<in> fst ` set rounds. \<forall>c \<in> fst ` set before. w - (c + gap) > limit)"

definition polls_end :: "(u32 \<times> int) list \<Rightarrow> (u32 \<times> int) list \<Rightarrow> (u32 \<times> int) list \<Rightarrow> bool" where
  "polls_end clear wait1 wait2 \<longleftrightarrow>
     released_twice clear \<and> expires_after 15000 0 clear wait1
     \<and> expires_after 60000 180 wait1 wait2"

text \<open>Two states with the same power flags and the same sleep accounting.\<close>

definition same_power :: "state \<Rightarrow> state \<Rightarrow> bool" where
  "same_power a b \<longleftrightarrow>
     leds_off b = leds_off a \<and> dimmed b = dimmed a \<and> disp_dim b = disp_dim a
     \<and> displaysleeping b = displaysleeping a \<and> disp_on b = disp_on a
     \<and> c_dst b = c_dst a \<and> dst_start b = dst_start a \<and> dst_end b = dst_end a"

section \<open>A run of the parked car\<close>

text \<open>
  The environment of one pass of \<^verbatim>\<open>loop()\<close>: the clock reads \<open>t\<close> and the averaged
  sensor distance is \<open>d\<close>.
\<close>

definition sample :: "u32 \<Rightarrow> real \<Rightarrow> state \<Rightarrow> state" where
  "sample t d s = s\<lparr>now_ms := t, distance := d\<rparr>"

text \<open>
  A car stands 50 cm from the sensor. The pass at 1 s sees it arrive, the pass at 2 s
  starts the stationary timer. \<open>at14\<close>, \<open>at16\<close> and \<open>at31\<close> are the states on which the
  timeout handling runs 14, 16 and 31 seconds later; \<open>at100\<close> is the state at 100 s, when
  somebody comes to the controls: \<open>read_down\<close> is the state after the READ button has gone
  down at 100 s, \<open>read_up_300\<close> and \<open>read_up_2000\<close> are the passes that find it released
  0.3 s and 2 s later, and \<open>turned\<close> is the pass at 100.6 s after the encoder was turned
  by one step at 100 s.
\<close>

definition parked :: state where
  "parked = timeout_handling (prepare_lights (sample 2000 50
              (timeout_handling (prepare_lights (sample 1000 50 boot)))))"

definition at14 :: state where
  "at14 = prepare_lights (sample 16000 50 parked)"

definition at16 :: state where
  "at16 = prepare_lights (sample 18000 50 (timeout_handling at14))"

definition at31 :: state where
  "at31 = prepare_lights (sample 33000 50 (timeout_handling at16))"

definition at100 :: state where
  "at100 = sample 100000 50 (timeout_handling at31)"

definition read_down :: state where
  "read_down = Get_Button LOW at100"

definition read_up_300 :: state where
  "read_up_300 = sample 100300 50 read_down"

definition read_up_2000 :: state where
  "read_up_2000 = sample 102000 50 read_down"

definition turned :: state where
  "turned = prepare_lights (sample 100600 50 (update HIGH HIGH at100))"

section \<open>Machine arithmetic\<close>

text \<open>An \<^verbatim>\<open>int\<close> result within the 16-bit range is not changed by the wrap-around.\<close>

lemma int16_id: "- 32768 \<le> k \<Longrightarrow> k \<le> 32767 \<Longrightarrow> int16 k = k"
proof -
  assume b: "- 32768 \<le> k" "k \<le> 32767"
  have "int16 k = signed_take_bit (LENGTH(16) - 1) k"
    unfolding int16_def by (rule sint_sbintrunc')
  also have "\<dots> = k"
    using b by (intro signed_take_bit_int_eq_self) simp_all
  finally show ?thesis .
qed

text \<open>The binary exponent of a number between two successive powers of two.\<close>

lemma floor_log2:
  assumes "2 powi k \<le> \<bar>x\<bar>" and "\<bar>x\<bar> < 2 powi (k + 1)"
  shows "\<lfloor>log 2 \<bar>x\<bar>\<rfloor> = k"
proof -
  have pos: "0 < \<bar>x\<bar>"
    using assms(1) by (smt (verit) zero_less_power_int)
  have p: "(2::real) powr real_of_int j = 2 powi j" for j
    by (rule powr_real_of_int') simp_all
  have "(2::real) powr real_of_int k \<le> \<bar>x\<bar> \<and> \<bar>x\<bar> < 2 powr real_of_int (k + 1)"
    using assms unfolding p by simp
  with pos show ?thesis
    by (subst floor_log_eq_powr_iff) simp_all
qed

lemma f32_zero: "f32 0 = 0"
  by (simp add: f32_def)

text \<open>A normal number with a 24-bit significand is a float value: rounding keeps it.\<close>

lemma f32_exact:
  assumes "2 powi k \<le> \<bar>x\<bar>" and "\<bar>x\<bar> < 2 powi (k + 1)" and "- 126 \<le> k"
    and "x = of_int m * 2 powi (k - 23)"
  shows "f32 x = x"
proof -
  have x0: "x \<noteq> 0"
    using assms(1) by (smt (verit) zero_less_power_int)
  have e: "max (- 149) (\<lfloor>log 2 \<bar>x\<bar>\<rfloor> - 23) = k - 23"
    using floor_log2 [OF assms(1,2)] assms(3) by simp
  have q: "x / 2 powi (k - 23) = of_int m"
    using assms(4) by simp
  have r: "round_even (of_int m) = m"
    by (simp add: round_even_def)
  show ?thesis
    using x0 by (simp add: f32_def e q r Let_def assms(4) [symmetric])
qed

lemma f32_50: "f32 (- 50) = - 50" "f32 50 = 50" "f32 100 = 100"
proof -
  show "f32 (- 50) = - 50"
    by (rule f32_exact [where k = 5 and m = "- 50 * 2 ^ 18"])
      (simp_all add: power_int_def power_one_over)
  show "f32 50 = 50"
    by (rule f32_exact [where k = 5 and m = "50 * 2 ^ 18"])
      (simp_all add: power_int_def power_one_over)
  show "f32 100 = 100"
    by (rule f32_exact [where k = 6 and m = "100 * 2 ^ 17"])
      (simp_all add: power_int_def power_one_over)
qed

text \<open>
  A number that needs more than 24 bits is rounded: \<open>2 - 2\<close> to the power \<open>-30\<close> lies
  between the float values \<open>2 - 2\<close> to the power \<open>-23\<close> and 2, and is rounded to 2.
\<close>

lemma f32_round_up: "f32 (2 - 1 / 2 ^ 30) = 2"
proof -
  let ?x = "2 - 1 / 2 ^ 30 :: real"
  have fl: "\<lfloor>log 2 \<bar>?x\<bar>\<rfloor> = 0"
    by (rule floor_log2) (simp_all add: power_int_def power_one_over)
  have e: "max (- 149) (\<lfloor>log 2 \<bar>?x\<bar>\<rfloor> - 23) = - 23"
    using fl by simp
  have q: "?x / 2 powi (- 23) = 16777216 - 1 / 128"
    by (simp add: power_int_def field_simps)
  have f: "\<lfloor>16777216 - 1 / 128 :: real\<rfloor> = 16777215"
    by (simp add: floor_eq_iff)
  have r: "round_even (16777216 - 1 / 128) = 16777216"
    by (simp add: round_even_def f Let_def)
  have "?x \<noteq> 0"
    by simp
  then show ?thesis
    unfolding f32_def e q r Let_def by (simp add: power_int_def power_one_over)
qed

section \<open>Evaluation rules\<close>

lemma dec_small: "n < 10 \<Longrightarrow> dec n = [digit_char n]"
  by (simp add: dec.simps)

lemma dec_large: "10 \<le> n \<Longrightarrow> dec n = dec (n div 10) @ [digit_char (n mod 10)]"
  by (subst dec.simps) simp

lemmas fmt_eval = ConvertSectoDay_def fmt_5lu_def fmt_02d_def to_int16_def pad_left_def
  dec_small dec_large digit_char_def

section \<open>Duration formatting\<close>

text \<open>A small \<^verbatim>\<open>unsigned long\<close> keeps its value when stored in an \<^verbatim>\<open>int\<close>.\<close>

lemma to_int16_small:
  assumes "unat x < 32768"
  shows "to_int16 x = int (unat x)"
proof -
  have iu: "int (unat x) = uint x"
    by (metis uint_nat)
  have hi: "uint x < 32768"
    using assms iu by linarith
  have lo: "- 32768 \<le> uint x"
    using uint_ge_0 [of x] by linarith
  have "uint (ucast x :: 16 word) = take_bit 16 (uint x)"
    by (simp add: unsigned_ucast_eq)
  also have "\<dots> = uint x"
    using hi by (intro take_bit_int_eq_self) simp_all
  finally have u: "uint (ucast x :: 16 word) = uint x" .
  have "sint (ucast x :: 16 word) = signed_take_bit (LENGTH(16) - Suc 0) (uint x)"
    using sint_uint [of "ucast x :: 16 word"] unfolding u .
  also have "\<dots> = uint x"
    using hi lo by (intro signed_take_bit_int_eq_self) simp_all
  finally show ?thesis
    using iu by (simp add: to_int16_def)
qed

lemma fmt_02d_small:
  assumes "unat x < 32768"
  shows "fmt_02d (to_int16 x) = pad_left (CHR ''0'') 2 (dec (unat x))"
  using assms by (simp add: to_int16_small fmt_02d_def)

lemma hms_unat:
  fixes n :: u32
  shows "unat (n div 86400) = unat n div 86400"
    and "unat (n mod 86400 div 3600) = unat n mod 86400 div 3600"
    and "unat (n mod 86400 mod 3600 div 60) = unat n mod 86400 mod 3600 div 60"
    and "unat (n mod 86400 mod 3600 mod 60) = unat n mod 86400 mod 3600 mod 60"
  by (simp_all add: unat_div unat_mod)

lemma hms_bounds:
  fixes k :: nat
  shows "k mod 86400 div 3600 < 32768" and "k mod 86400 mod 3600 div 60 < 32768"
    and "k mod 86400 mod 3600 mod 60 < 32768"
proof -
  have "k mod 86400 < 86400"
    by simp
  then have "k mod 86400 div 3600 < 24"
    by (simp add: div_less_iff_less_mult)
  then show "k mod 86400 div 3600 < 32768"
    by simp
  have "k mod 86400 mod 3600 < 3600"
    by simp
  then have "k mod 86400 mod 3600 div 60 < 60"
    by (simp add: div_less_iff_less_mult)
  then show "k mod 86400 mod 3600 div 60 < 32768"
    by simp
  have "k mod 86400 mod 3600 mod 60 < 60"
    by simp
  then show "k mod 86400 mod 3600 mod 60 < 32768"
    by simp
qed

text \<open>
  C9. Formatting the largest elapsed-seconds value 4294967295 with \<open>ConvertSectoDay\<close>
  gives exactly the string "49710d06:28:15". For every \<open>n\<close> the string is made of
  days = n / 86400 in at least five columns, the letter d, and hours = n % 86400 / 3600,
  minutes = n % 86400 % 3600 / 60 and seconds = n % 86400 % 3600 % 60, each in two
  digits, separated by colons.
\<close>

theorem ConvertSectoDay_max:
  "ConvertSectoDay 4294967295 = ''49710d06:28:15''
   \<and> ConvertSectoDay n =
       pad_left (CHR '' '') 5 (dec (unat n div 86400)) @ ''d''
       @ pad_left (CHR ''0'') 2 (dec (unat n mod 86400 div 3600)) @ '':''
       @ pad_left (CHR ''0'') 2 (dec (unat n mod 86400 mod 3600 div 60)) @ '':''
       @ pad_left (CHR ''0'') 2 (dec (unat n mod 86400 mod 3600 mod 60))"
proof -
  have 1: "ConvertSectoDay 4294967295 = ''49710d06:28:15''"
    by (simp add: fmt_eval)
  have h: "fmt_02d (to_int16 (n mod 86400 div 3600)) =
           pad_left (CHR ''0'') 2 (dec (unat n mod 86400 div 3600))"
    using fmt_02d_small [of "n mod 86400 div 3600"] hms_bounds(1) [of "unat n"]
    by (simp only: hms_unat)
  have m: "fmt_02d (to_int16 (n mod 86400 mod 3600 div 60)) =
           pad_left (CHR ''0'') 2 (dec (unat n mod 86400 mod 3600 div 60))"
    using fmt_02d_small [of "n mod 86400 mod 3600 div 60"] hms_bounds(2) [of "unat n"]
    by (simp only: hms_unat)
  have s: "fmt_02d (to_int16 (n mod 86400 mod 3600 mod 60)) =
           pad_left (CHR ''0'') 2 (dec (unat n mod 86400 mod 3600 mod 60))"
    using fmt_02d_small [of "n mod 86400 mod 3600 mod 60"] hms_bounds(3) [of "unat n"]
    by (simp only: hms_unat)
  have 2: "ConvertSectoDay n =
       pad_left (CHR '' '') 5 (dec (unat n div 86400)) @ ''d''
       @ pad_left (CHR ''0'') 2 (dec (unat n mod 86400 div 3600)) @ '':''
       @ pad_left (CHR ''0'') 2 (dec (unat n mod 86400 mod 3600 div 60)) @ '':''
       @ pad_left (CHR ''0'') 2 (dec (unat n mod 86400 mod 3600 mod 60))"
    unfolding ConvertSectoDay_def Let_def h m s fmt_5lu_def hms_unat ..
  from 1 2 show ?thesis ..
qed

section \<open>Uptime accounting: the resync\<close>

lemma upd_up_sec:
  "up_sec (update_up_sec_from_millis s) =
     up_sec s + (if up_mi_old s \<le> now_ms s then now_ms s - up_mi_old s
                 else up_mi_max - up_mi_old s + now_ms s) div 1000"
  by (simp add: update_up_sec_from_millis_def Let_def serial_out_def)

lemma upd_diff_mi:
  "diff_mi (update_up_sec_from_millis s) =
     (if up_mi_old s \<le> now_ms s then now_ms s - up_mi_old s
      else up_mi_max - up_mi_old s + now_ms s)"
  by (simp add: update_up_sec_from_millis_def Let_def serial_out_def)

lemma upd_serial:
  "serial (update_up_sec_from_millis s) =
     serial s @ (if now_ms s < up_mi_old s then millis_overflow_msg (now_ms s) else [])
       @ (if up_sec (update_up_sec_from_millis s) < up_sec s
          then up_sec_overflow_msg (up_sec (update_up_sec_from_millis s)) else [])"
proof (cases "up_mi_old s \<le> now_ms s")
  case True
  then have "\<not> now_ms s < up_mi_old s"
    by simp
  with True show ?thesis
    by (simp add: update_up_sec_from_millis_def Let_def serial_out_def)
next
  case False
  then have "now_ms s < up_mi_old s"
    by simp
  with False show ?thesis
    by (simp add: update_up_sec_from_millis_def Let_def serial_out_def)
qed

text \<open>What a resync stores, and what it leaves alone.\<close>

lemma upd_frame:
  "up_mi_old (update_up_sec_from_millis s) = now_ms s"
  "up_sec_old (update_up_sec_from_millis s) = up_sec (update_up_sec_from_millis s)"
  "diff_sec (update_up_sec_from_millis s) = diff_mi (update_up_sec_from_millis s) div 1000"
  "now_ms (update_up_sec_from_millis s) = now_ms s"
  "c_dst (update_up_sec_from_millis s) = c_dst s"
  "c_uptime (update_up_sec_from_millis s) = c_uptime s"
  "dst_start (update_up_sec_from_millis s) = dst_start s"
  "dst_end (update_up_sec_from_millis s) = dst_end s"
  "dst_dur (update_up_sec_from_millis s) = dst_dur s"
  "displaysleeping (update_up_sec_from_millis s) = displaysleeping s"
  "leds_off (update_up_sec_from_millis s) = leds_off s"
  "dimmed (update_up_sec_from_millis s) = dimmed s"
  "disp_on (update_up_sec_from_millis s) = disp_on s"
  "disp_dim (update_up_sec_from_millis s) = disp_dim s"
  "timeout (update_up_sec_from_millis s) = timeout s"
  by (simp_all add: update_up_sec_from_millis_def Let_def serial_out_def)

lemma resync_diff_mi:
  "diff_mi (resync r s) =
     (if up_mi_old s \<le> r then r - up_mi_old s else up_mi_max - up_mi_old s + r)"
  by (simp add: resync_def upd_diff_mi)

lemma resync_up_sec:
  "up_sec (resync r s) =
     up_sec s + (if up_mi_old s \<le> r then r - up_mi_old s else up_mi_max - up_mi_old s + r) div 1000"
  by (simp add: resync_def upd_up_sec)


lemma resync_up_mi_old: "up_mi_old (resync r s) = r"
  by (simp add: resync_def upd_frame)

lemma resync_all_snoc: "resync_all (rs @ [r]) s = resync r (resync_all rs s)"
  by (simp add: resync_all_def)

lemma uint_up_mi_max: "uint up_mi_max = 4294967294"
  by (simp add: up_mi_max_def)

lemma uint_u32_bound: "uint (x :: u32) < 4294967296"
  using uint_lt2p [of x] by simp

lemma delta_uint_normal:
  fixes a b :: u32
  assumes "a \<le> b"
  shows "uint (b - a) = uint b - uint a"
  using assms by (simp add: uint_sub_lem [symmetric] word_le_def)

lemma delta_uint_wrap:
  fixes a b :: u32
  assumes "\<not> a \<le> b" and "0 \<le> 4294967294 - uint a + uint b"
  shows "uint (up_mi_max - a + b) = 4294967294 - uint a + uint b"
proof -
  have lt: "uint b < uint a"
    using assms(1) by (simp add: word_le_def)
  have "uint (up_mi_max - a + b) = (uint (up_mi_max - a) + uint b) mod 2 ^ 32"
    by (simp add: uint_word_ariths)
  also have "uint (up_mi_max - a) = (4294967294 - uint a) mod 2 ^ 32"
    by (simp add: uint_word_ariths uint_up_mi_max)
  also have "((4294967294 - uint a) mod 2 ^ 32 + uint b) mod 2 ^ 32
      = (4294967294 - uint a + uint b) mod 2 ^ 32"
    by (rule mod_add_left_eq)
  also have "\<dots> = 4294967294 - uint a + uint b"
    using assms(2) lt uint_u32_bound [of a] by (intro mod_pos_pos_trivial) simp_all
  finally show ?thesis .
qed

text \<open>
  Where the integer delta is not negative, the \<^verbatim>\<open>unsigned long\<close> expression of the
  sketch computes it without wrapping.
\<close>

lemma delta_uint:
  assumes "0 \<le> bridging_delta (uint a) (uint b)"
  shows "uint (if a \<le> b then b - a else up_mi_max - a + b) = bridging_delta (uint a) (uint b)"
proof (cases "a \<le> b")
  case True
  then show ?thesis
    by (simp add: delta_uint_normal bridging_delta_def word_le_def)
next
  case False
  then have gt: "\<not> uint a \<le> uint b"
    by (simp add: word_le_def)
  with assms have "0 \<le> 4294967294 - uint a + uint b"
    by (simp add: bridging_delta_def RAW_MAX_def)
  with False gt show ?thesis
    by (simp add: delta_uint_wrap bridging_delta_def RAW_MAX_def)
qed

text \<open>The integer delta is negative for exactly one pair of readings.\<close>

lemma bridging_delta_neg_iff:
  "bridging_delta (uint (a::u32)) (uint (b::u32)) < 0 \<longleftrightarrow> a = 4294967295 \<and> b = 0"
proof
  assume neg: "bridging_delta (uint a) (uint b) < 0"
  have "4294967294 - uint a + uint b < 0"
    using neg by (simp add: bridging_delta_def RAW_MAX_def split: if_splits)
  with uint_u32_bound [of a] uint_ge_0 [of b] have "uint a = 4294967295 \<and> uint b = 0"
    by linarith
  then have "uint a = uint (4294967295 :: u32) \<and> uint b = uint (0 :: u32)"
    by simp
  then show "a = 4294967295 \<and> b = 0"
    by (simp only: word_uint_eq_iff)
next
  assume "a = 4294967295 \<and> b = 0"
  then show "bridging_delta (uint a) (uint b) < 0"
    by (simp add: bridging_delta_def RAW_MAX_def)
qed


text \<open>
  Where the integer delta is not negative, that is for every pair of readings except
  4294967295 followed by 0, a resync call that reads \<open>raw_now\<close> computes the delta
  \<open>raw_now - last_raw\<close> if \<open>raw_now \<ge> last_raw\<close> and \<open>(RAW_MAX - last_raw) + raw_now\<close>
  otherwise, and adds \<open>floor(delta / 1000)\<close> seconds to \<open>up_sec\<close>, the sum taken modulo
  \<open>2 ^ 32\<close>. Readings 4294967290 and then 4 give a delta of exactly 8 ms.
\<close>

lemma resync_delta_in_range:
  assumes "0 \<le> bridging_delta (uint (up_mi_old s)) (uint raw_now)"
  shows "uint (diff_mi (resync raw_now s)) = bridging_delta (uint (up_mi_old s)) (uint raw_now)
       \<and> uint (up_sec (resync raw_now s)) =
           (uint (up_sec s) + bridging_delta (uint (up_mi_old s)) (uint raw_now) div 1000) mod 2 ^ 32
       \<and> (up_mi_old s = 4294967290 \<and> raw_now = 4 \<longrightarrow> diff_mi (resync raw_now s) = 8)"
proof -
  let ?d = "if up_mi_old s \<le> raw_now then raw_now - up_mi_old s
            else up_mi_max - up_mi_old s + raw_now"
  have d: "uint ?d = bridging_delta (uint (up_mi_old s)) (uint raw_now)"
    using assms by (rule delta_uint)
  have 1: "diff_mi (resync raw_now s) = ?d"
    by (rule resync_diff_mi)
  have 2: "up_sec (resync raw_now s) = up_sec s + ?d div 1000"
    by (rule resync_up_sec)
  have 3: "uint (up_sec s + ?d div 1000) = (uint (up_sec s) + uint ?d div 1000) mod 2 ^ 32"
    by (simp add: uint_word_ariths uint_div)
  have 4: "up_mi_old s = 4294967290 \<and> raw_now = 4 \<longrightarrow> diff_mi (resync raw_now s) = 8"
    by (simp add: resync_diff_mi up_mi_max_def)
  have 5: "uint (up_sec (resync raw_now s)) =
           (uint (up_sec s) + bridging_delta (uint (up_mi_old s)) (uint raw_now) div 1000) mod 2 ^ 32"
    using d 2 3 by simp
  have 6: "uint (diff_mi (resync raw_now s)) = bridging_delta (uint (up_mi_old s)) (uint raw_now)"
    using d 1 by simp
  from 6 5 4 show ?thesis
    by (intro conjI)
qed

text \<open>
  After readings 4294967290 and 4 the delta is 8 ms and no second is added; after
  4294966290 and 1003 the delta is 2007 ms and two seconds are added to the 100 before.
\<close>

lemma resync_delta_examples:
  "diff_mi (resync 4 (boot\<lparr>up_mi_old := 4294967290\<rparr>)) = 8
   \<and> uint (up_sec (resync 4 (boot\<lparr>up_mi_old := 4294967290\<rparr>))) = 0
   \<and> uint (diff_mi (resync 1003 (boot\<lparr>up_mi_old := 4294966290, up_sec := 100\<rparr>))) = 2007
   \<and> uint (up_sec (resync 1003 (boot\<lparr>up_mi_old := 4294966290, up_sec := 100\<rparr>))) = 102"
proof -
  have a: "0 \<le> bridging_delta (uint (up_mi_old (boot\<lparr>up_mi_old := 4294967290\<rparr>))) (uint (4 :: u32))"
    by (simp add: bridging_delta_def RAW_MAX_def)
  have b: "0 \<le> bridging_delta (uint (up_mi_old (boot\<lparr>up_mi_old := 4294966290, up_sec := 100\<rparr>)))
          (uint (1003 :: u32))"
    by (simp add: bridging_delta_def RAW_MAX_def)
  show ?thesis
    using resync_delta_in_range [OF a] resync_delta_in_range [OF b]
    by (simp add: bridging_delta_def RAW_MAX_def boot_def)
qed


text \<open>
  C7. A second resync in immediate succession, with the same raw millisecond reading,
  adds exactly zero seconds to \<open>up_sec\<close>.
\<close>

theorem resync_idempotent:
  "up_sec (resync r (resync r s)) = up_sec (resync r s)
   \<and> diff_mi (resync r (resync r s)) = 0 \<and> diff_sec (resync r (resync r s)) = 0"
  by (simp add: resync_def upd_up_sec upd_diff_mi upd_frame)

text \<open>
  C3. Across any sequence of resync calls, \<open>up_sec\<close> never decreases silently. After
  each call the new value is the old one plus the seconds of this call in 32-bit
  arithmetic, it is the new baseline \<open>up_sec_old\<close>, and Serial has received, after the
  wrap notice if the millisecond counter wrapped, the line "up_sec overflow has
  happened" with the new value exactly if the new value is smaller than the old one. So
  either \<open>up_sec\<close> did not decrease, or the diagnostic with the new, smaller value is the
  last thing printed; the value is never clamped back up.
\<close>

theorem up_sec_decrease_is_reported:
  "up_sec (resync_all (rs @ [r]) s) =
     up_sec (resync_all rs s) + diff_sec (resync_all (rs @ [r]) s)
   \<and> up_sec_old (resync_all (rs @ [r]) s) = up_sec (resync_all (rs @ [r]) s)
   \<and> serial (resync_all (rs @ [r]) s) =
       serial (resync_all rs s)
       @ (if r < up_mi_old (resync_all rs s) then millis_overflow_msg r else [])
       @ (if up_sec (resync_all (rs @ [r]) s) < up_sec (resync_all rs s)
          then up_sec_overflow_msg (up_sec (resync_all (rs @ [r]) s)) else [])
   \<and> (up_sec (resync_all rs s) \<le> up_sec (resync_all (rs @ [r]) s)
      \<or> (\<exists>before. serial (resync_all (rs @ [r]) s) =
            before @ up_sec_overflow_msg (up_sec (resync_all (rs @ [r]) s))))"
proof -
  let ?s1 = "resync_all rs s"
  let ?s2 = "resync r ?s1"
  have 1: "up_sec ?s2 = up_sec ?s1 + diff_sec ?s2"
    by (simp add: resync_def upd_up_sec upd_frame upd_diff_mi)
  have 2: "up_sec_old ?s2 = up_sec ?s2"
    by (simp add: resync_def upd_frame)
  have 3: "serial ?s2 = serial ?s1
       @ (if r < up_mi_old ?s1 then millis_overflow_msg r else [])
       @ (if up_sec ?s2 < up_sec ?s1 then up_sec_overflow_msg (up_sec ?s2) else [])"
    unfolding resync_def by (subst upd_serial) simp
  have 4: "up_sec ?s1 \<le> up_sec ?s2
      \<or> (\<exists>before. serial ?s2 = before @ up_sec_overflow_msg (up_sec ?s2))"
  proof (cases "up_sec ?s1 \<le> up_sec ?s2")
    case True
    then show ?thesis by simp
  next
    case False
    then have "serial ?s2 =
        (serial ?s1 @ (if r < up_mi_old ?s1 then millis_overflow_msg r else []))
        @ up_sec_overflow_msg (up_sec ?s2)"
      using 3 by (simp add: not_le)
    then show ?thesis by blast
  qed
  from 1 2 3 4 show ?thesis
    unfolding resync_all_snoc by (intro conjI)
qed

text \<open>
  Two resyncs from 4294967295 seconds of uptime: the first adds nothing, the second
  adds five seconds, wraps \<open>up_sec\<close> to 4 and prints the diagnostic with that value.
\<close>

theorem up_sec_decrease_is_reported_witness:
  "up_sec (resync_all [1000] (boot\<lparr>up_sec := 4294967295, up_mi_old := 1000\<rparr>)) = 4294967295
   \<and> up_sec (resync_all [1000, 6000] (boot\<lparr>up_sec := 4294967295, up_mi_old := 1000\<rparr>)) = 4
   \<and> up_sec_old (resync_all [1000, 6000] (boot\<lparr>up_sec := 4294967295, up_mi_old := 1000\<rparr>)) = 4
   \<and> serial (resync_all [1000, 6000] (boot\<lparr>up_sec := 4294967295, up_mi_old := 1000\<rparr>)) =
       [Print ''1: up_sec overflow has happened -> '', Println ''4'']"
proof -
  let ?s = "boot\<lparr>up_sec := 4294967295, up_mi_old := 1000\<rparr>"
  have 1: "up_sec (resync_all [1000] ?s) = 4294967295"
    by (simp add: resync_all_def resync_up_sec)
  have 2: "up_mi_old (resync_all [1000] ?s) = 1000"
    by (simp add: resync_all_def resync_up_mi_old)
  have 3: "serial (resync_all [1000] ?s) = []"
    by (simp add: resync_all_def resync_def upd_serial upd_up_sec boot_def)
  have 4: "up_sec (resync_all [1000, 6000] ?s) = 4"
    by (simp add: resync_all_def resync_up_sec resync_up_mi_old)
  have 5: "[1000] @ [6000] = [1000, 6000 :: u32]"
    by simp
  show ?thesis
    using up_sec_decrease_is_reported [of "[1000]" 6000 ?s] 1 2 3 4
    unfolding 5 by (simp add: up_sec_overflow_msg_def dec_small digit_char_def)
qed

section \<open>Sleep-time accounting\<close>

text \<open>
  C4. A wake-up that finds the display asleep closes the sleep window at
  \<open>dst_end\<close> = the uptime seconds after a resync now; the duration
  \<open>dst_end - dst_start\<close> is added to \<open>c_dst\<close> only if \<open>dst_end > dst_start\<close>, otherwise
  \<open>c_dst\<close> keeps its value; and the window is re-based to start at \<open>dst_end\<close>. When the
  display powers down, \<open>sleepDisplay\<close> opens a window with \<open>dst_start\<close> = the uptime
  seconds after a resync now.
\<close>

theorem wake_closes_sleep_window:
  assumes "displaysleeping s = 1"
  shows "dst_end (wakeDisplay s) = up_sec (update_up_sec_from_millis s)
       \<and> up_sec (wakeDisplay s) = up_sec (update_up_sec_from_millis s)
       \<and> c_dst (wakeDisplay s) =
           (if dst_end (wakeDisplay s) > dst_start s
            then c_dst s + (dst_end (wakeDisplay s) - dst_start s) else c_dst s)
       \<and> dst_start (wakeDisplay s) = dst_end (wakeDisplay s)
       \<and> displaysleeping (wakeDisplay s) = 0 \<and> disp_on (wakeDisplay s)
       \<and> dst_start (sleepDisplay t) = up_sec (update_up_sec_from_millis t)
       \<and> up_sec (sleepDisplay t) = up_sec (update_up_sec_from_millis t)
       \<and> displaysleeping (sleepDisplay t) = 1 \<and> \<not> disp_on (sleepDisplay t)"
  using assms
  by (simp add: wakeDisplay_def sleepDisplay_def Let_def upd_frame upd_up_sec)

text \<open>
  The display went to sleep at 34 s of uptime and is woken at 100 s: 66 seconds are
  added. Woken with an uptime that is not above the window start, nothing is added.
\<close>

theorem wake_closes_sleep_window_witness:
  "displaysleeping (boot\<lparr>displaysleeping := 1, dst_start := 34, up_sec := 34,
       up_mi_old := 34000, now_ms := 100000\<rparr>) = 1
   \<and> dst_end (wakeDisplay (boot\<lparr>displaysleeping := 1, dst_start := 34, up_sec := 34,
       up_mi_old := 34000, now_ms := 100000\<rparr>)) = 100
   \<and> c_dst (wakeDisplay (boot\<lparr>displaysleeping := 1, dst_start := 34, up_sec := 34,
       up_mi_old := 34000, now_ms := 100000\<rparr>)) = 66
   \<and> dst_start (wakeDisplay (boot\<lparr>displaysleeping := 1, dst_start := 34, up_sec := 34,
       up_mi_old := 34000, now_ms := 100000\<rparr>)) = 100
   \<and> displaysleeping (boot\<lparr>displaysleeping := 1, dst_start := 34, c_dst := 7\<rparr>) = 1
   \<and> dst_end (wakeDisplay (boot\<lparr>displaysleeping := 1, dst_start := 34, c_dst := 7\<rparr>)) = 0
   \<and> c_dst (wakeDisplay (boot\<lparr>displaysleeping := 1, dst_start := 34, c_dst := 7\<rparr>)) = 7
   \<and> dst_start (sleepDisplay (boot\<lparr>now_ms := 34000\<rparr>)) = 34"
proof -
  let ?a = "boot\<lparr>displaysleeping := 1, dst_start := 34, up_sec := 34,
       up_mi_old := 34000, now_ms := 100000\<rparr>"
  let ?b = "boot\<lparr>displaysleeping := 1, dst_start := 34, c_dst := 7\<rparr>"
  have a: "displaysleeping ?a = 1" and b: "displaysleeping ?b = 1"
    by simp_all
  have ua: "up_sec (update_up_sec_from_millis ?a) = 100"
    by (simp add: upd_up_sec)
  have ub: "up_sec (update_up_sec_from_millis ?b) = 0"
    by (simp add: upd_up_sec boot_def)
  have ut: "up_sec (update_up_sec_from_millis (boot\<lparr>now_ms := 34000\<rparr>)) = 34"
    by (simp add: upd_up_sec boot_def)
  show ?thesis
    using wake_closes_sleep_window [OF a, of "boot\<lparr>now_ms := 34000\<rparr>"]
      wake_closes_sleep_window [OF b, of "boot\<lparr>now_ms := 34000\<rparr>"] ua ub ut
    by (simp add: boot_def)
qed

text \<open>
  C10. Redundant requests do not touch the sleep accounting. \<open>go_sleepDisplay\<close> with
  the display already sleeping changes no state at all, so \<open>dst_start\<close> keeps the time
  of the sleep entry; \<open>wakeDisplay\<close> with the display not sleeping changes only the
  dimming state and leaves \<open>c_dst\<close>, \<open>dst_start\<close>, \<open>dst_end\<close> and \<open>displaysleeping\<close> as
  they are.
\<close>

theorem redundant_requests_change_nothing:
  "(displaysleeping s = 1 \<longrightarrow> go_sleepDisplay s = s)
   \<and> (displaysleeping s = 0 \<longrightarrow>
        wakeDisplay s = s\<lparr>disp_dim := False, dimmed := 0\<rparr>
        \<and> c_dst (wakeDisplay s) = c_dst s \<and> dst_start (wakeDisplay s) = dst_start s
        \<and> dst_end (wakeDisplay s) = dst_end s \<and> displaysleeping (wakeDisplay s) = 0)"
  by (simp add: go_sleepDisplay_def wakeDisplay_def Let_def)

text \<open>
  A sleeping display that is asked to sleep again later keeps its window start 34; a
  dimmed, running display that is woken loses only the dimming.
\<close>

theorem redundant_requests_change_nothing_witness:
  "displaysleeping (boot\<lparr>displaysleeping := 1, dst_start := 34, now_ms := 90000\<rparr>) = 1
   \<and> dst_start (go_sleepDisplay (boot\<lparr>displaysleeping := 1, dst_start := 34, now_ms := 90000\<rparr>)) = 34
   \<and> go_sleepDisplay (boot\<lparr>displaysleeping := 1, dst_start := 34, now_ms := 90000\<rparr>)
       = boot\<lparr>displaysleeping := 1, dst_start := 34, now_ms := 90000\<rparr>
   \<and> displaysleeping (boot\<lparr>dimmed := 1, disp_dim := True, c_dst := 7\<rparr>) = 0
   \<and> dimmed (wakeDisplay (boot\<lparr>dimmed := 1, disp_dim := True, c_dst := 7\<rparr>)) = 0
   \<and> c_dst (wakeDisplay (boot\<lparr>dimmed := 1, disp_dim := True, c_dst := 7\<rparr>)) = 7"
  using redundant_requests_change_nothing
          [of "boot\<lparr>displaysleeping := 1, dst_start := 34, now_ms := 90000\<rparr>"]
        redundant_requests_change_nothing [of "boot\<lparr>dimmed := 1, disp_dim := True, c_dst := 7\<rparr>"]
  by (simp add: boot_def)

section \<open>The uptime report\<close>

lemma display_uptime_info_fields:
  "c_uptime (display_uptime_info s) = up_sec (update_up_sec_from_millis s)"
  "c_dst (display_uptime_info s) = c_dst s"
  "c_dwt (display_uptime_info s) = up_sec (update_up_sec_from_millis s) - c_dst s"
  "last (serial (display_uptime_info s)) =
     Println (ConvertSectoDay (up_sec (update_up_sec_from_millis s) - c_dst s))"
  "last (oled (display_uptime_info s)) =
     ConvertSectoDay (up_sec (update_up_sec_from_millis s) - c_dst s)"
  by (simp_all add: display_uptime_info_def Let_def serial_out_def upd_frame)

text \<open>
  C2 (amended). \<open>display_uptime_info\<close> reports the wake time
  \<open>c_dwt = c_uptime - c_dst\<close> computed in 32-bit unsigned arithmetic, where \<open>c_uptime\<close>
  is the uptime after a resync now. When the sleep seconds exceed the uptime seconds
  the reported value is the wrapped difference \<open>2 ^ 32 - (c_dst - c_uptime)\<close>; there is
  no clamp and no sentinel. Otherwise it is the plain difference. The value is printed
  last on Serial and on the display.
\<close>

theorem wake_time_is_wrapped_difference:
  "c_uptime (display_uptime_info s) = up_sec (update_up_sec_from_millis s)
   \<and> c_dst (display_uptime_info s) = c_dst s
   \<and> c_dwt (display_uptime_info s) = c_uptime (display_uptime_info s) - c_dst s
   \<and> (c_dst s > c_uptime (display_uptime_info s) \<longrightarrow>
        uint (c_dwt (display_uptime_info s)) =
          2 ^ 32 - (uint (c_dst s) - uint (c_uptime (display_uptime_info s))))
   \<and> (c_dst s \<le> c_uptime (display_uptime_info s) \<longrightarrow>
        uint (c_dwt (display_uptime_info s)) =
          uint (c_uptime (display_uptime_info s)) - uint (c_dst s))
   \<and> last (serial (display_uptime_info s)) =
        Println (ConvertSectoDay (c_dwt (display_uptime_info s)))
   \<and> last (oled (display_uptime_info s)) = ConvertSectoDay (c_dwt (display_uptime_info s))"
proof -
  have w: "c_dst s > c_uptime (display_uptime_info s) \<longrightarrow>
        uint (c_uptime (display_uptime_info s) - c_dst s) =
          2 ^ 32 - (uint (c_dst s) - uint (c_uptime (display_uptime_info s)))"
    by (simp add: uint_sub_if' word_less_def)
  have n: "c_dst s \<le> c_uptime (display_uptime_info s) \<longrightarrow>
        uint (c_uptime (display_uptime_info s) - c_dst s) =
          uint (c_uptime (display_uptime_info s)) - uint (c_dst s)"
    by (simp add: uint_sub_if' word_le_def)
  have rest: "c_uptime (display_uptime_info s) = up_sec (update_up_sec_from_millis s)
   \<and> c_dwt (display_uptime_info s) = c_uptime (display_uptime_info s) - c_dst s
   \<and> c_dst (display_uptime_info s) = c_dst s
   \<and> last (serial (display_uptime_info s)) =
        Println (ConvertSectoDay (c_dwt (display_uptime_info s)))
   \<and> last (oled (display_uptime_info s)) = ConvertSectoDay (c_dwt (display_uptime_info s))"
    by (simp add: display_uptime_info_fields)
  from w n rest show ?thesis
    by simp
qed

text \<open>
  With 100 s of sleep against 40 s of uptime the report shows 4294967236 s; with 7 s
  of sleep against 40 s of uptime it shows 33 s.
\<close>

theorem wake_time_is_wrapped_difference_witness:
  "c_dst (boot\<lparr>c_dst := 100, up_sec := 40\<rparr>)
     > c_uptime (display_uptime_info (boot\<lparr>c_dst := 100, up_sec := 40\<rparr>))
   \<and> uint (c_dwt (display_uptime_info (boot\<lparr>c_dst := 100, up_sec := 40\<rparr>))) = 4294967236
   \<and> c_dst (boot\<lparr>c_dst := 7, up_sec := 40\<rparr>)
     \<le> c_uptime (display_uptime_info (boot\<lparr>c_dst := 7, up_sec := 40\<rparr>))
   \<and> uint (c_dwt (display_uptime_info (boot\<lparr>c_dst := 7, up_sec := 40\<rparr>))) = 33"
proof -
  have a: "up_sec (update_up_sec_from_millis (boot\<lparr>c_dst := 100, up_sec := 40\<rparr>)) = 40"
    by (simp add: upd_up_sec boot_def)
  have b: "up_sec (update_up_sec_from_millis (boot\<lparr>c_dst := 7, up_sec := 40\<rparr>)) = 40"
    by (simp add: upd_up_sec boot_def)
  show ?thesis
    using wake_time_is_wrapped_difference [of "boot\<lparr>c_dst := 100, up_sec := 40\<rparr>"]
      wake_time_is_wrapped_difference [of "boot\<lparr>c_dst := 7, up_sec := 40\<rparr>"] a b
    by simp
qed

text \<open>
  The claim as first stated fails: with 10 s of sleep against 5 s of uptime the reported
  wake time is neither 0 nor another fixed value but the wrapped difference 4294967291,
  shown as 49710 days.
\<close>

theorem wake_time_not_clamped_counterexample:
  "c_dst (display_uptime_info (boot\<lparr>c_dst := 10, up_sec := 5\<rparr>)) = 10
   \<and> c_uptime (display_uptime_info (boot\<lparr>c_dst := 10, up_sec := 5\<rparr>)) = 5
   \<and> c_dwt (display_uptime_info (boot\<lparr>c_dst := 10, up_sec := 5\<rparr>)) = 4294967291
   \<and> c_dwt (display_uptime_info (boot\<lparr>c_dst := 10, up_sec := 5\<rparr>)) = 5 - 10
   \<and> last (oled (display_uptime_info (boot\<lparr>c_dst := 10, up_sec := 5\<rparr>))) = ''49710d06:28:11''"
proof -
  have u: "up_sec (update_up_sec_from_millis (boot\<lparr>c_dst := 10, up_sec := 5\<rparr>)) = 5"
    by (simp add: upd_up_sec boot_def)
  have f: "ConvertSectoDay 4294967291 = ''49710d06:28:11''"
    by (simp add: fmt_eval)
  have m: "(- 5 :: u32) = 4294967291"
    by simp
  have g: "ConvertSectoDay (- 5) = ''49710d06:28:11''"
    unfolding m by (rule f)
  show ?thesis
    by (simp add: display_uptime_info_fields u g)
qed

section \<open>Indicator tier\<close>

lemma c_div_nonneg: "0 \<le> a \<Longrightarrow> c_div a 2 = a div 2"
  by (cases "a = 0") (simp_all add: c_div_def)

lemma floor_half: "\<lfloor>real_of_int a / 2\<rfloor> = a div 2"
  using floor_divide_of_int_eq [of a 2] by simp

lemma prepare_light1:
  "light1 (prepare_lights s) = max range_min (min range_max (int16 (counter s + light1s s)))"
  by (simp add: prepare_lights_def Let_def range_min_def range_max_def)

lemma prepare_light1_range:
  "range_min \<le> light1 (prepare_lights s) \<and> light1 (prepare_lights s) \<le> range_max"
  by (simp add: prepare_light1 range_min_def range_max_def)

lemma prepare_raw:
  "light2 (prepare_lights s) = int16 (light1 (prepare_lights s) + light2s)"
  "light3 (prepare_lights s) = int16 (light2 (prepare_lights s) + light3s)"
  "light0 (prepare_lights s) =
     (if light1 (prepare_lights s) < warning_limit then c_div (light1 (prepare_lights s)) 2
      else int16 (light1 (prepare_lights s) - light0s))"
  "distance (prepare_lights s) = distance s"
  "leds_off (prepare_lights s) = leds_off s"
  by (simp_all add: prepare_lights_def Let_def)

lemma prepare_thresholds:
  "light2 (prepare_lights s) = light1 (prepare_lights s) + light2s"
  "light3 (prepare_lights s) = light1 (prepare_lights s) + light2s + light3s"
  "light0 (prepare_lights s) = warning_threshold_floor (light1 (prepare_lights s))"
proof -
  let ?l = "light1 (prepare_lights s)"
  have r: "18 \<le> ?l" "?l \<le> 150"
    using prepare_light1_range [of s] by (simp_all add: range_min_def range_max_def)
  show 2: "light2 (prepare_lights s) = ?l + light2s"
    using r by (simp add: prepare_raw(1) light2s_def int16_id)
  show "light3 (prepare_lights s) = ?l + light2s + light3s"
    using r by (simp add: prepare_raw(2) 2 light2s_def light3s_def int16_id)
  show "light0 (prepare_lights s) = warning_threshold_floor ?l"
    using r by (simp add: prepare_raw(3) warning_threshold_floor_def floor_half c_div_nonneg
        light0s_def int16_id)
qed

text \<open>While the LEDs are timed out, the chain lights none of them.\<close>

lemma leds_suppressed: "leds_off s \<noteq> 0 \<Longrightarrow> led_tier s = OFF"
  by (simp add: led_tier_def)

text \<open>
  The two warning thresholds agree where the stop distance is even or not below the
  warning limit.
\<close>

lemma warning_threshold_exact:
  assumes "warning_limit \<le> stop \<or> even stop"
  shows "real_of_int (warning_threshold_floor stop) = warning_threshold stop"
proof (cases "stop < warning_limit")
  case True
  with assms have "even stop"
    by simp
  then obtain k where "stop = 2 * k" ..
  with True show ?thesis
    by (simp add: warning_threshold_floor_def warning_threshold_def)
next
  case False
  then show ?thesis
    by (simp add: warning_threshold_floor_def warning_threshold_def)
qed

text \<open>
  C6 (amended). While the LEDs are enabled, the indicator tier is a function of the
  distance sample and the configured stop distance: below the warning threshold
  WARNING, from there below the stop distance RED, from the stop distance below
  stop + yellow band YELLOW, from there below stop + yellow band + green band GREEN,
  otherwise OFF, where the warning threshold is stop / 2 rounded down to a whole number
  if the stop distance is below the warning limit, and stop minus the fixed warning
  offset otherwise. The stop distance is the stored value plus the encoder offset in
  16-bit arithmetic, kept within 18 .. 150. Where the stop distance is even or not
  below the warning limit, the tier is that of the exact half as well.
\<close>

theorem tier_is_function_of_distance:
  assumes "leds_off s = 0"
  shows "led_tier (prepare_lights s) = tier_floor (distance s) (light1 (prepare_lights s))
       \<and> light1 (prepare_lights s) =
           max range_min (min range_max (int16 (counter s + light1s s)))
       \<and> (warning_limit \<le> light1 (prepare_lights s) \<or> even (light1 (prepare_lights s)) \<longrightarrow>
            led_tier (prepare_lights s) = tier_spec (distance s) (light1 (prepare_lights s)))"
proof -
  have 1: "led_tier (prepare_lights s) = tier_floor (distance s) (light1 (prepare_lights s))"
    using assms by (simp add: led_tier_def tier_floor_def prepare_thresholds prepare_raw(4,5))
  have 2: "warning_limit \<le> stop \<or> even stop \<longrightarrow> tier_floor d stop = tier_spec d stop" for d stop
    by (simp add: tier_floor_def tier_spec_def warning_threshold_exact)
  from 1 2 prepare_light1 show ?thesis
    by simp
qed

text \<open>
  With stop distance 30, bands of 30 and warning limit 30: distance 10 gives WARNING,
  25 RED, 45 YELLOW, 75 GREEN and 95 OFF. With the encoder eleven steps back the stop
  distance is 19 and the warning threshold 9: distance 9.25 gives RED, 8.75 WARNING.
\<close>

theorem tier_is_function_of_distance_witness:
  "leds_off (boot\<lparr>distance := 10\<rparr>) = 0
   \<and> light1 (prepare_lights (boot\<lparr>distance := 10\<rparr>)) = 30
   \<and> led_tier (prepare_lights (boot\<lparr>distance := 10\<rparr>)) = WARNING
   \<and> led_tier (prepare_lights (boot\<lparr>distance := 25\<rparr>)) = RED
   \<and> led_tier (prepare_lights (boot\<lparr>distance := 45\<rparr>)) = YELLOW
   \<and> led_tier (prepare_lights (boot\<lparr>distance := 75\<rparr>)) = GREEN
   \<and> led_tier (prepare_lights (boot\<lparr>distance := 95\<rparr>)) = OFF
   \<and> leds_off (boot\<lparr>counter := - 11, distance := 37 / 4\<rparr>) = 0
   \<and> light1 (prepare_lights (boot\<lparr>counter := - 11, distance := 37 / 4\<rparr>)) = 19
   \<and> led_tier (prepare_lights (boot\<lparr>counter := - 11, distance := 37 / 4\<rparr>)) = RED
   \<and> led_tier (prepare_lights (boot\<lparr>counter := - 11, distance := 35 / 4\<rparr>)) = WARNING"
proof -
  have l: "leds_off (boot\<lparr>distance := d\<rparr>) = 0"
    "leds_off (boot\<lparr>counter := - 11, distance := d\<rparr>) = 0" for d
    by (simp_all add: boot_def)
  have t: "led_tier (prepare_lights (boot\<lparr>distance := d\<rparr>)) = tier_floor d 30
      \<and> light1 (prepare_lights (boot\<lparr>distance := d\<rparr>)) = 30" for d
    using tier_is_function_of_distance [OF l(1) [of d]]
    by (simp add: boot_def range_min_def range_max_def int16_id)
  have u: "led_tier (prepare_lights (boot\<lparr>counter := - 11, distance := d\<rparr>)) = tier_floor d 19
      \<and> light1 (prepare_lights (boot\<lparr>counter := - 11, distance := d\<rparr>)) = 19" for d
    using tier_is_function_of_distance [OF l(2) [of d]]
    by (simp add: boot_def range_min_def range_max_def int16_id)
  have e: "tier_floor 10 30 = WARNING" "tier_floor 25 30 = RED" "tier_floor 45 30 = YELLOW"
    "tier_floor 75 30 = GREEN" "tier_floor 95 30 = OFF"
    "tier_floor (37 / 4) 19 = RED" "tier_floor (35 / 4) 19 = WARNING"
    by (simp_all add: tier_floor_def warning_threshold_floor_def floor_half warning_limit_def
        light0s_def light2s_def light3s_def)
  show ?thesis
    by (simp add: t u e l)
qed

text \<open>
  The claim as first stated, with the warning threshold at stop / 2, fails for an odd
  stop distance below the warning limit. With the LEDs enabled, stop distance 19 and a
  distance sample of 9.25, the stated threshold is 9.5 and the stated tier WARNING; the
  sketch computes the threshold 9 and lights the red LED.
\<close>

theorem odd_stop_distance_counterexample:
  "leds_off (boot\<lparr>counter := - 11, distance := 37 / 4\<rparr>) = 0
   \<and> distance (boot\<lparr>counter := - 11, distance := 37 / 4\<rparr>) = 37 / 4
   \<and> light1 (prepare_lights (boot\<lparr>counter := - 11, distance := 37 / 4\<rparr>)) = 19
   \<and> light0 (prepare_lights (boot\<lparr>counter := - 11, distance := 37 / 4\<rparr>)) = 9
   \<and> warning_threshold 19 = 19 / 2
   \<and> tier_spec (37 / 4) 19 = WARNING
   \<and> led_tier (prepare_lights (boot\<lparr>counter := - 11, distance := 37 / 4\<rparr>)) = RED
   \<and> led_tier (prepare_lights (boot\<lparr>counter := - 11, distance := 37 / 4\<rparr>))
       \<noteq> tier_spec (distance (boot\<lparr>counter := - 11, distance := 37 / 4\<rparr>))
           (light1 (prepare_lights (boot\<lparr>counter := - 11, distance := 37 / 4\<rparr>)))"
proof -
  let ?s = "boot\<lparr>counter := - 11, distance := 37 / 4\<rparr>"
  have 1: "light1 (prepare_lights ?s) = 19"
    by (simp add: prepare_light1 boot_def range_min_def range_max_def int16_id)
  have 0: "light0 (prepare_lights ?s) = 9"
    by (simp add: prepare_thresholds(3) 1 warning_threshold_floor_def floor_half
        warning_limit_def)
  have 2: "tier_spec (37 / 4) 19 = WARNING" "warning_threshold 19 = 19 / 2"
    by (simp_all add: tier_spec_def warning_threshold_def warning_limit_def)
  have 4: "leds_off ?s = 0"
    by (simp add: boot_def)
  have 3: "led_tier (prepare_lights ?s) = RED"
    by (simp add: led_tier_def 0 1 4 prepare_raw(4,5))
  show ?thesis
    by (simp add: 0 1 2 3 4)
qed

section \<open>Storing the stop distance\<close>


lemma store_asleep:
  assumes "displaysleeping s = 1"
  shows "eeprom_writes (store_button_pressed s) = eeprom_writes s"
    and "eeprom (store_button_pressed s) = eeprom s"
  using assms
  by (simp_all add: store_button_pressed_def reset_LEDTimeout_def wakeDisplay_def delay_def
      Let_def update_up_sec_from_millis_def serial_out_def)



text \<open>What the other sections of a pass leave alone.\<close>

lemma prepare_lights_frame:
  "eeprom (prepare_lights s) = eeprom s"
  "eeprom_writes (prepare_lights s) = eeprom_writes s"
  "displaysleeping (prepare_lights s) = displaysleeping s"
  "now_ms (prepare_lights s) = now_ms s"
  "last_move (prepare_lights s) = last_move s"
  "last_dist (prepare_lights s) = last_dist s"
  "light1s (prepare_lights s) = light1s s"
  by (simp_all add: prepare_lights_def Let_def)











section \<open>Timeouts and manual wake-up\<close>

lemma to_int16_0: "to_int16 0 = 0"
  by (simp add: to_int16_def)

lemma timer_value:
  assumes "start_timeout s \<noteq> 0" and "elapsed_stationary s < 32768"
  shows "stationary_timer s = s\<lparr>timeout := int (elapsed_stationary s)\<rparr>"
proof -
  have "unat ((now_ms s - start_timeout s) div 1000) = elapsed_stationary s"
    by (simp add: elapsed_stationary_def unat_div)
  with assms(2) have "to_int16 ((now_ms s - start_timeout s) div 1000) = int (elapsed_stationary s)"
    by (simp add: to_int16_small)
  with assms(1) show ?thesis
    by (simp add: stationary_timer_def Let_def)
qed

lemma timer_restart:
  assumes "start_timeout s = 0"
  shows "stationary_timer s = s\<lparr>start_timeout := now_ms s, timeout := 0\<rparr>"
  using assms by (simp add: stationary_timer_def Let_def to_int16_0)

text \<open>The timeout handling on a stationary car, with the timer value written out.\<close>

lemma stationary_pass:
  assumes "stationary_check s" and "elapsed_stationary s < 32768"
  shows "timeout_handling s =
     (let s4 = s\<lparr>last_outofrange := now_ms s, last_move := now_ms s,
                  move_ps := f32 (\<bar>f32 (last_dist s - distance s)\<bar> * 2),
                  last_dist := distance s, timeout := int (elapsed_stationary s)\<rparr>;
          s7 = (if int (elapsed_stationary s) > LED_TIMEOUT
                then s4\<lparr>leds_off := 1, disp_dim := True, dimmed := 1\<rparr>
                else wakeDisplay (s4\<lparr>leds_off := 0\<rparr>))
      in if timeout s7 > LED_TIMEOUT + DISPLAY_TIMEOUT then go_sleepDisplay s7 else s7)"
proof -
  let ?s4 = "s\<lparr>last_outofrange := now_ms s, last_move := now_ms s,
                  move_ps := f32 (\<bar>f32 (last_dist s - distance s)\<bar> * 2),
                  last_dist := distance s\<rparr>"
  have t: "stationary_timer ?s4 = ?s4\<lparr>timeout := int (elapsed_stationary s)\<rparr>"
    using assms timer_value [of ?s4] by (simp add: stationary_check_def elapsed_stationary_def)
  show ?thesis
    using assms(1) unfolding timeout_handling_def stationary_check_def not_moving_def
    by (simp add: Let_def t)
qed

lemma restart_pass:
  assumes "restart_check s"
  shows "timeout_handling s =
     wakeDisplay (s\<lparr>last_outofrange := now_ms s, last_move := now_ms s,
                  move_ps := f32 (\<bar>f32 (last_dist s - distance s)\<bar> * 2),
                  last_dist := distance s, start_timeout := now_ms s, timeout := 0,
                  leds_off := 0\<rparr>)"
proof -
  let ?s4 = "s\<lparr>last_outofrange := now_ms s, last_move := now_ms s,
                  move_ps := f32 (\<bar>f32 (last_dist s - distance s)\<bar> * 2),
                  last_dist := distance s\<rparr>"
  have t: "stationary_timer ?s4 = ?s4\<lparr>start_timeout := now_ms s, timeout := 0\<rparr>"
    using assms timer_restart [of ?s4] by (simp add: restart_check_def)
  have w: "timeout (wakeDisplay x) = timeout x" for x
    by (simp add: wakeDisplay_def Let_def upd_frame)
  show ?thesis
    using assms unfolding timeout_handling_def restart_check_def not_moving_def
    by (simp add: Let_def t w LED_TIMEOUT_def DISPLAY_TIMEOUT_def)
qed

lemma stationary_awake:
  assumes "stationary_check s" "displaysleeping s = 0" "disp_on s" "elapsed_stationary s \<le> 15"
  shows "is_AWAKE (timeout_handling s) \<and> c_dst (timeout_handling s) = c_dst s"
  using assms
  by (simp add: stationary_pass Let_def LED_TIMEOUT_def DISPLAY_TIMEOUT_def wakeDisplay_def
      is_AWAKE_def)

lemma stationary_dimmed:
  assumes "stationary_check s" "displaysleeping s = 0" "disp_on s"
    "15 < elapsed_stationary s" "elapsed_stationary s \<le> 30"
  shows "is_DIMMED (timeout_handling s) \<and> c_dst (timeout_handling s) = c_dst s"
  using assms
  by (simp add: stationary_pass Let_def LED_TIMEOUT_def DISPLAY_TIMEOUT_def is_DIMMED_def)

lemma stationary_asleep:
  assumes "stationary_check s" "displaysleeping s = 0" "disp_on s"
    "30 < elapsed_stationary s" "elapsed_stationary s < 32768"
  shows "is_ASLEEP (timeout_handling s) \<and> c_dst (timeout_handling s) = c_dst s
     \<and> dst_start (timeout_handling s) = up_sec (timeout_handling s)"
  using assms
  by (simp add: stationary_pass Let_def LED_TIMEOUT_def DISPLAY_TIMEOUT_def is_ASLEEP_def
      go_sleepDisplay_def sleepDisplay_def delay_def upd_frame)

text \<open>What a wake-up does to the power flags and to the sleep accounting.\<close>

lemma wake_fields:
  "dimmed (wakeDisplay x) = 0"
  "\<not> disp_dim (wakeDisplay x)"
  "leds_off (wakeDisplay x) = leds_off x"
  "displaysleeping x = 1 \<Longrightarrow> displaysleeping (wakeDisplay x) = 0"
  "displaysleeping x = 1 \<Longrightarrow> disp_on (wakeDisplay x)"
  "displaysleeping x = 1 \<Longrightarrow> c_dst (wakeDisplay x) = c_dst x + asleep_seconds x"
  "displaysleeping x = 1 \<Longrightarrow> dst_end (wakeDisplay x) = up_sec (update_up_sec_from_millis x)"
  "displaysleeping x = 1 \<Longrightarrow> dst_start (wakeDisplay x) = up_sec (update_up_sec_from_millis x)"
  "displaysleeping x \<noteq> 1 \<Longrightarrow> displaysleeping (wakeDisplay x) = displaysleeping x"
  "displaysleeping x \<noteq> 1 \<Longrightarrow> disp_on (wakeDisplay x) = disp_on x"
  "displaysleeping x \<noteq> 1 \<Longrightarrow> c_dst (wakeDisplay x) = c_dst x"
  by (simp_all add: wakeDisplay_def Let_def upd_frame upd_up_sec asleep_seconds_def)

text \<open>The seconds asleep depend on the clock, the uptime and the window start only.\<close>

lemma asleep_seconds_cong:
  assumes "now_ms a = now_ms b" "up_mi_old a = up_mi_old b" "up_sec a = up_sec b"
    "dst_start a = dst_start b"
  shows "asleep_seconds a = asleep_seconds b"
    and "up_sec (update_up_sec_from_millis a) = up_sec (update_up_sec_from_millis b)"
  using assms by (simp_all add: asleep_seconds_def upd_up_sec)

lemma woken_by_wake:
  assumes "is_ASLEEP t \<or> displaysleeping t = 0 \<and> disp_on t"
    and "leds_off x = 0"
    and "displaysleeping x = displaysleeping t" "disp_on x = disp_on t" "c_dst x = c_dst t"
    and "now_ms x = now_ms t" "up_mi_old x = up_mi_old t" "up_sec x = up_sec t"
    and "dst_start x = dst_start t"
  shows "woken_from t (wakeDisplay x)"
proof (cases "is_ASLEEP t")
  case True
  then have d: "displaysleeping x = 1"
    using assms(3) by (simp add: is_ASLEEP_def)
  have a: "asleep_seconds x = asleep_seconds t"
    "up_sec (update_up_sec_from_millis x) = up_sec (update_up_sec_from_millis t)"
    using assms(6-9) by (rule asleep_seconds_cong)+
  show ?thesis
    using True d a assms(2,5) by (simp add: woken_from_def is_AWAKE_def wake_fields)
next
  case False
  with assms(1) have t: "displaysleeping t = 0" "disp_on t"
    by simp_all
  then have d: "displaysleeping x \<noteq> 1"
    using assms(3) by simp
  show ?thesis
    using False d t assms(2-5) by (simp add: woken_from_def is_AWAKE_def wake_fields)
qed

lemma reset_fields:
  "leds_off (reset_LEDTimeout s) = 0"
  "dimmed (reset_LEDTimeout s) = 0"
  "\<not> disp_dim (reset_LEDTimeout s)"
  "timeout (reset_LEDTimeout s) = 0"
  "start_timeout (reset_LEDTimeout s) = 0"
  "displaysleeping (reset_LEDTimeout s) = displaysleeping s"
  "disp_on (reset_LEDTimeout s) = disp_on s"
  "c_dst (reset_LEDTimeout s) = c_dst s"
  "now_ms (reset_LEDTimeout s) = now_ms s"
  "up_mi_old (reset_LEDTimeout s) = up_mi_old s"
  "up_sec (reset_LEDTimeout s) = up_sec s"
  "dst_start (reset_LEDTimeout s) = dst_start s"
  "dst_end (reset_LEDTimeout s) = dst_end s"
  "butmode (reset_LEDTimeout s) = butmode s"
  by (simp_all add: reset_LEDTimeout_def Let_def)

lemma woken_by_reset_wake:
  assumes "is_ASLEEP t \<or> displaysleeping t = 0 \<and> disp_on t"
  shows "woken_from t (wakeDisplay (reset_LEDTimeout t))"
  using assms by (intro woken_by_wake) (simp_all add: reset_fields)

lemma display_on_states: "is_DIMMED t \<or> is_AWAKE t \<Longrightarrow> display_on t"
  by (auto simp add: is_DIMMED_def is_AWAKE_def display_on_def)

lemma not_asleep: "display_on t \<Longrightarrow> displaysleeping t = 0 \<and> disp_on t \<and> \<not> is_ASLEEP t"
  by (simp add: display_on_def is_ASLEEP_def)

lemma power_cases:
  "is_ASLEEP t \<or> display_on t \<Longrightarrow> is_ASLEEP t \<or> displaysleeping t = 0 \<and> disp_on t"
  using not_asleep [of t] by blast

text \<open>The encoder button and the STORE button.\<close>

lemma woken_delay: "woken_from t x \<Longrightarrow> woken_from t (delay d x)"
  by (simp add: woken_from_def is_AWAKE_def delay_def)

lemma encoder_wakes:
  assumes "is_ASLEEP t \<or> display_on t"
  shows "woken_from t (encoder_switch_pressed t)"
proof (cases "displaysleeping t = 1")
  case True
  then have "is_ASLEEP t"
    using assms by (auto simp add: display_on_def)
  then have "woken_from t (wakeDisplay (reset_LEDTimeout t))"
    by (intro woken_by_reset_wake) simp
  with True show ?thesis
    by (simp add: encoder_switch_pressed_def)
next
  case False
  then have "displaysleeping t = 0 \<and> disp_on t \<and> \<not> is_ASLEEP t"
    using assms by (auto simp add: display_on_def is_ASLEEP_def)
  with False show ?thesis
    by (simp add: encoder_switch_pressed_def woken_from_def is_AWAKE_def reset_LEDTimeout_def
        delay_def Let_def)
qed

lemma store_wakes:
  assumes "is_ASLEEP t \<or> display_on t"
  shows "woken_from t (store_button_pressed t)"
proof (cases "displaysleeping t = 1")
  case True
  then have "is_ASLEEP t"
    using assms by (auto simp add: display_on_def)
  then have "woken_from t (delay 2000 (wakeDisplay (reset_LEDTimeout t)))"
    by (intro woken_delay woken_by_reset_wake) simp
  with True show ?thesis
    by (simp add: store_button_pressed_def)
next
  case False
  then have "displaysleeping t = 0 \<and> disp_on t \<and> \<not> is_ASLEEP t"
    using assms by (auto simp add: display_on_def is_ASLEEP_def)
  with False show ?thesis
    by (auto simp add: store_button_pressed_def woken_from_def is_AWAKE_def reset_LEDTimeout_def
        delay_def Let_def EEPROM_update_def)
qed

lemma asleep_seconds_uint:
  "uint (asleep_seconds t) =
     max 0 (uint (up_sec (update_up_sec_from_millis t)) - uint (dst_start t))"
  by (simp add: asleep_seconds_def word_less_def uint_sub_if' max_def)

text \<open>The READ button: what \<^verbatim>\<open>Get_Button\<close> and the polling loops leave alone.\<close>

lemma Get_Button_frame:
  "now_ms (Get_Button p s) = now_ms s"
  "start_for (Get_Button p s) = start_for s"
  "displaysleeping (Get_Button p s) = displaysleeping s"
  "disp_on (Get_Button p s) = disp_on s"
  "c_dst (Get_Button p s) = c_dst s"
  "up_mi_old (Get_Button p s) = up_mi_old s"
  "up_sec (Get_Button p s) = up_sec s"
  "dst_start (Get_Button p s) = dst_start s"
  by (simp_all add: Get_Button_def Let_def)

lemma same_power_refl: "same_power s s"
  by (simp add: same_power_def)

lemma same_power_trans: "same_power a b \<Longrightarrow> same_power b c \<Longrightarrow> same_power a c"
  by (simp add: same_power_def)

lemma same_power_Get_Button: "same_power s (Get_Button p (s\<lparr>now_ms := t\<rparr>))"
  by (simp add: same_power_def Get_Button_def Let_def)

lemma same_power_simple:
  "same_power s (delay d s)"
  "same_power s (display_prog_info s)"
  "same_power s (display_uptime_info s)"
  "same_power s (s\<lparr>start_for := v\<rparr>)"
  "same_power s (s\<lparr>butmode := m\<rparr>)"
  by (simp_all add: same_power_def delay_def display_prog_info_def display_uptime_info_def
      Let_def serial_out_def upd_frame)

lemma Clear_Button_same_power: "Clear_Button rounds s = Some s' \<Longrightarrow> same_power s s'"
proof (induction rounds arbitrary: s)
  case Nil
  then show ?case
    by simp
next
  case (Cons r rounds)
  obtain t pin where r: "r = (t, pin)"
    by (cases r)
  let ?s1 = "Get_Button pin (s\<lparr>now_ms := t\<rparr>)"
  have 1: "same_power s ?s1"
    by (rule same_power_Get_Button)
  show ?case
  proof (cases "butmode ?s1 = 0")
    case True
    with Cons.prems r have "s' = ?s1"
      by (simp add: Let_def)
    with 1 show ?thesis
      by simp
  next
    case False
    with Cons.prems r have "Clear_Button rounds ?s1 = Some s'"
      by (simp add: Let_def)
    then have "same_power ?s1 s'"
      by (rule Cons.IH)
    with 1 show ?thesis
      by (rule same_power_trans)
  qed
qed

lemma Clear_Button_now: "Clear_Button rounds s = Some s' \<Longrightarrow> now_ms s' \<in> fst ` set rounds"
proof (induction rounds arbitrary: s)
  case Nil
  then show ?case
    by simp
next
  case (Cons r rounds)
  obtain t pin where r: "r = (t, pin)"
    by (cases r)
  let ?s1 = "Get_Button pin (s\<lparr>now_ms := t\<rparr>)"
  show ?case
  proof (cases "butmode ?s1 = 0")
    case True
    with Cons.prems r have "s' = ?s1"
      by (simp add: Let_def)
    then show ?thesis
      using r by (simp add: Get_Button_frame)
  next
    case False
    with Cons.prems r have "Clear_Button rounds ?s1 = Some s'"
      by (simp add: Let_def)
    then have "now_ms s' \<in> fst ` set rounds"
      by (rule Cons.IH)
    then show ?thesis
      by simp
  qed
qed

lemma wait_click_same_power: "wait_click limit rounds s = Some s' \<Longrightarrow> same_power s s'"
proof (induction rounds arbitrary: s)
  case Nil
  then show ?case
    by simp
next
  case (Cons r rounds)
  obtain t pin where r: "r = (t, pin)"
    by (cases r)
  let ?s1 = "Get_Button pin (s\<lparr>now_ms := t\<rparr>)"
  have 1: "same_power s ?s1"
    by (rule same_power_Get_Button)
  show ?case
  proof (cases "butmode ?s1 = 1 \<or> now_ms ?s1 - start_for ?s1 > limit")
    case True
    with Cons.prems r have "s' = ?s1"
      by (auto simp add: Let_def split: if_splits)
    with 1 show ?thesis
      by simp
  next
    case False
    with Cons.prems r have "wait_click limit rounds ?s1 = Some s'"
      by (simp add: Let_def)
    then have "same_power ?s1 s'"
      by (rule Cons.IH)
    with 1 show ?thesis
      by (rule same_power_trans)
  qed
qed

lemma wait_click_now: "wait_click limit rounds s = Some s' \<Longrightarrow> now_ms s' \<in> fst ` set rounds"
proof (induction rounds arbitrary: s)
  case Nil
  then show ?case
    by simp
next
  case (Cons r rounds)
  obtain t pin where r: "r = (t, pin)"
    by (cases r)
  let ?s1 = "Get_Button pin (s\<lparr>now_ms := t\<rparr>)"
  show ?case
  proof (cases "butmode ?s1 = 1 \<or> now_ms ?s1 - start_for ?s1 > limit")
    case True
    with Cons.prems r have "s' = ?s1"
      by (auto simp add: Let_def split: if_splits)
    then show ?thesis
      using r by (simp add: Get_Button_frame)
  next
    case False
    with Cons.prems r have "wait_click limit rounds ?s1 = Some s'"
      by (simp add: Let_def)
    then have "now_ms s' \<in> fst ` set rounds"
      by (rule Cons.IH)
    then show ?thesis
      by simp
  qed
qed

text \<open>The polling loops end.\<close>

lemma Get_Button_released:
  "butEETimePressed (Get_Button HIGH s) = 0"
  "butEETimePressed s = 0 \<Longrightarrow> butmode (Get_Button HIGH s) = 0"
  by (auto simp add: Get_Button_def Let_def HIGH_def LOW_def word_greater_zero_iff)

lemma Clear_Button_returns:
  "released_twice rounds \<Longrightarrow> \<exists>s'. Clear_Button rounds s = Some s'"
proof (induction rounds arbitrary: s rule: released_twice.induct)
  case (1 t1 p1 t2 p2 rounds)
  let ?s1 = "Get_Button p1 (s\<lparr>now_ms := t1\<rparr>)"
  let ?s2 = "Get_Button p2 (?s1\<lparr>now_ms := t2\<rparr>)"
  show ?case
  proof (cases "butmode ?s1 = 0")
    case True
    then show ?thesis
      by (simp add: Let_def)
  next
    case False
    show ?thesis
    proof (cases "p1 = HIGH \<and> p2 = HIGH")
      case True
      then have "butEETimePressed ?s1 = 0"
        by (simp add: Get_Button_released)
      then have "butEETimePressed (?s1\<lparr>now_ms := t2\<rparr>) = 0"
        by simp
      then have "butmode ?s2 = 0"
        using True Get_Button_released(2) [of "?s1\<lparr>now_ms := t2\<rparr>"] by simp
      with False show ?thesis
        by (simp add: Let_def)
    next
      case F2: False
      with "1.prems" have "released_twice ((t2, p2) # rounds)"
        by simp
      then obtain s' where "Clear_Button ((t2, p2) # rounds) ?s1 = Some s'"
        using "1.IH" by blast
      with False show ?thesis
        by (simp add: Let_def)
    qed
  qed
qed simp_all

lemma wait_click_returns:
  assumes "\<exists>w \<in> fst ` set rounds. w - start_for s > limit"
  shows "\<exists>s'. wait_click limit rounds s = Some s'"
  using assms
proof (induction rounds arbitrary: s)
  case Nil
  then show ?case
    by simp
next
  case (Cons r rounds)
  obtain t pin where r: "r = (t, pin)"
    by (cases r)
  let ?s1 = "Get_Button pin (s\<lparr>now_ms := t\<rparr>)"
  have f: "start_for ?s1 = start_for s" "now_ms ?s1 = t"
    by (simp_all add: Get_Button_frame)
  show ?case
  proof (cases "butmode ?s1 = 1 \<or> now_ms ?s1 - start_for ?s1 > limit")
    case True
    then show ?thesis
      using r by (auto simp add: Let_def)
  next
    case False
    then have "\<not> t - start_for s > limit"
      using f by simp
    with Cons.prems r have "\<exists>w \<in> fst ` set rounds. w - start_for ?s1 > limit"
      using f by auto
    then obtain s' where "wait_click limit rounds ?s1 = Some s'"
      using Cons.IH by blast
    with False r show ?thesis
      by (simp add: Let_def)
  qed
qed

lemma woken_kept: "woken_from t a \<Longrightarrow> same_power a b \<Longrightarrow> woken_from t b"
  by (simp add: woken_from_def is_AWAKE_def same_power_def)

lemma registered_butmode:
  "registered pin t \<Longrightarrow> butmode (Get_Button pin t) > 0"
  by (auto simp add: registered_def)

text \<open>The short and the long press with the display on.\<close>

lemma short_press_wakes:
  assumes "\<not> is_ASLEEP t" "displaysleeping s = 0" "disp_on s" "c_dst s = c_dst t"
  shows "woken_from t (read_short_press s)"
  using assms
  by (simp add: read_short_press_def woken_from_def is_AWAKE_def reset_LEDTimeout_def delay_def
      Let_def)

lemma long_press_shape:
  assumes "read_long_press clear wait1 wait2 s = Some s'"
  shows "\<exists>s6. same_power (reset_LEDTimeout s) s6
           \<and> s' = wakeDisplay (reset_LEDTimeout (delay 180 (s6\<lparr>butmode := 0\<rparr>)))"
proof -
  let ?s1 = "reset_LEDTimeout s"
  let ?s3 = "delay 540 (display_prog_info ?s1)"
  have p3: "same_power ?s1 ?s3"
    using same_power_simple(2) [of ?s1] same_power_simple(1) [of "display_prog_info ?s1" 540]
    by (rule same_power_trans)
  obtain s4 where c: "Clear_Button clear ?s3 = Some s4"
    using assms by (cases "Clear_Button clear ?s3") (simp_all add: read_long_press_def Let_def)
  have p4: "same_power ?s1 s4"
    using p3 Clear_Button_same_power [OF c] by (rule same_power_trans)
  let ?s4 = "s4\<lparr>start_for := now_ms s4\<rparr>"
  obtain s5 where w1: "wait_click 15000 wait1 ?s4 = Some s5"
    using assms c by (cases "wait_click 15000 wait1 ?s4") (simp_all add: read_long_press_def Let_def)
  have p5: "same_power ?s1 s5"
    using same_power_trans [OF p4 same_power_simple(4) [of s4 "now_ms s4"]]
      wait_click_same_power [OF w1] by (rule same_power_trans)
  let ?t2 = "delay 180 (display_uptime_info s5)"
  let ?t3 = "?t2\<lparr>start_for := now_ms ?t2\<rparr>"
  show ?thesis
  proof (cases "butmode s5 = 1")
    case False
    then have "s' = wakeDisplay (reset_LEDTimeout (delay 180 (s5\<lparr>butmode := 0\<rparr>)))"
      using assms c w1 by (simp add: read_long_press_def Let_def)
    with p5 show ?thesis
      by blast
  next
    case True
    obtain s6 where w2: "wait_click 60000 wait2 ?t3 = Some s6"
      using assms c w1 True
      by (cases "wait_click 60000 wait2 ?t3") (simp_all add: read_long_press_def Let_def)
    have "same_power s5 ?t2"
      using same_power_simple(3) [of s5] same_power_simple(1) [of "display_uptime_info s5" 180]
      by (rule same_power_trans)
    then have "same_power s5 ?t3"
      using same_power_simple(4) [of ?t2 "now_ms ?t2"] by (rule same_power_trans)
    then have "same_power s5 s6"
      using wait_click_same_power [OF w2] by (rule same_power_trans)
    with p5 have p6: "same_power ?s1 s6"
      by (rule same_power_trans)
    have "s' = wakeDisplay (reset_LEDTimeout (delay 180 (s6\<lparr>butmode := 0\<rparr>)))"
      using assms c w1 w2 True by (simp add: read_long_press_def Let_def)
    with p6 show ?thesis
      by blast
  qed
qed

lemma long_press_wakes:
  assumes "\<not> is_ASLEEP t" "displaysleeping s = 0" "disp_on s" "c_dst s = c_dst t"
    and "read_long_press clear wait1 wait2 s = Some s'"
  shows "woken_from t s'"
proof -
  obtain s6 where p: "same_power (reset_LEDTimeout s) s6"
    and r: "s' = wakeDisplay (reset_LEDTimeout (delay 180 (s6\<lparr>butmode := 0\<rparr>)))"
    using long_press_shape [OF assms(5)] by blast
  have f: "displaysleeping s6 = 0" "disp_on s6" "c_dst s6 = c_dst t"
    using p assms(2-4) by (simp_all add: same_power_def reset_fields)
  show ?thesis
    unfolding r using assms(1) f
    by (simp add: woken_from_def is_AWAKE_def wake_fields reset_fields delay_def)
qed

lemma now_ms_report: "now_ms (display_uptime_info s) = now_ms s"
  by (simp add: display_uptime_info_def Let_def serial_out_def upd_frame)

lemma expires_afterD:
  assumes "expires_after limit gap before rounds" and "c \<in> fst ` set before"
  shows "\<exists>w \<in> fst ` set rounds. w - (c + gap) > limit"
  using assms unfolding expires_after_def by blast

lemma long_press_returns:
  assumes "polls_end clear wait1 wait2"
  shows "\<exists>s'. read_long_press clear wait1 wait2 s = Some s'"
proof -
  let ?s3 = "delay 540 (display_prog_info (reset_LEDTimeout s))"
  from assms have rt: "released_twice clear"
    and e1: "expires_after 15000 0 clear wait1" and e2: "expires_after 60000 180 wait1 wait2"
    by (simp_all add: polls_end_def)
  obtain s4 where c: "Clear_Button clear ?s3 = Some s4"
    using Clear_Button_returns [OF rt] by blast
  let ?s4 = "s4\<lparr>start_for := now_ms s4\<rparr>"
  have "now_ms s4 \<in> fst ` set clear"
    using c by (rule Clear_Button_now)
  then have "\<exists>w \<in> fst ` set wait1. w - start_for ?s4 > 15000"
    using expires_afterD [OF e1, of "now_ms s4"] by simp
  then obtain s5 where w1: "wait_click 15000 wait1 ?s4 = Some s5"
    using wait_click_returns by blast
  let ?t2 = "delay 180 (display_uptime_info s5)"
  let ?t3 = "?t2\<lparr>start_for := now_ms ?t2\<rparr>"
  show ?thesis
  proof (cases "butmode s5 = 1")
    case False
    then show ?thesis
      using c w1 by (simp add: read_long_press_def Let_def)
  next
    case True
    have "now_ms s5 \<in> fst ` set wait1"
      using w1 by (rule wait_click_now)
    then have "\<exists>w \<in> fst ` set wait2. w - (now_ms s5 + 180) > 60000"
      by (rule expires_afterD [OF e2])
    moreover have "start_for ?t3 = now_ms s5 + 180"
      by (simp add: delay_def now_ms_report)
    ultimately have "\<exists>w \<in> fst ` set wait2. w - start_for ?t3 > 60000"
      by simp
    then obtain s6 where w2: "wait_click 60000 wait2 ?t3 = Some s6"
      using wait_click_returns by blast
    with True show ?thesis
      using c w1 by (simp add: read_long_press_def Let_def)
  qed
qed

text \<open>The READ button section of the loop.\<close>

lemma read_button_wakes:
  assumes "is_ASLEEP t \<or> display_on t" and "registered pin t"
    and "read_button pin clear wait1 wait2 t = Some t'"
  shows "woken_from t t'"
proof (cases "is_ASLEEP t")
  case True
  let ?s1 = "Get_Button pin t"
  let ?w = "wakeDisplay (reset_LEDTimeout ?s1)"
  have b: "butmode ?s1 > 0" "displaysleeping ?s1 = 1"
    using assms(2) True by (simp_all add: registered_butmode Get_Button_frame is_ASLEEP_def)
  have ww: "woken_from t ?w"
    using True by (intro woken_by_wake) (simp_all add: reset_fields Get_Button_frame)
  obtain c where c: "Clear_Button clear ?w = Some c"
    using assms(3) b by (cases "Clear_Button clear ?w") (simp_all add: read_button_def Let_def)
  have t': "t' = c\<lparr>butmode := 0\<rparr>"
    using assms(3) b c by (simp add: read_button_def Let_def)
  have "woken_from t c"
    using ww Clear_Button_same_power [OF c] by (rule woken_kept)
  then show ?thesis
    unfolding t' using same_power_simple(5) [of c 0] by (rule woken_kept)
next
  case False
  let ?s1 = "Get_Button pin t"
  from False assms(1) have on: "displaysleeping t = 0" "disp_on t"
    using not_asleep [of t] by simp_all
  then have s1: "displaysleeping ?s1 = 0" "disp_on ?s1" "c_dst ?s1 = c_dst t"
    by (simp_all add: Get_Button_frame)
  from assms(2) consider "butmode ?s1 = 1" | "butmode ?s1 = 2"
    by (auto simp add: registered_def)
  then show ?thesis
  proof cases
    case 1
    then have "t' = read_short_press ?s1"
      using assms(3) s1 by (simp add: read_button_def Let_def)
    then show ?thesis
      using short_press_wakes [OF False s1] by simp
  next
    case 2
    then have "read_long_press clear wait1 wait2 ?s1 = Some t'"
      using assms(3) s1 by (simp add: read_button_def Let_def)
    then show ?thesis
      using long_press_wakes [OF False s1] by simp
  qed
qed

lemma read_button_returns:
  assumes "registered pin t" and "polls_end clear wait1 wait2"
  shows "\<exists>t'. read_button pin clear wait1 wait2 t = Some t'"
proof (cases "displaysleeping (Get_Button pin t) = 1")
  case True
  let ?w = "wakeDisplay (reset_LEDTimeout (Get_Button pin t))"
  have b: "butmode (Get_Button pin t) > 0"
    using assms(1) by (rule registered_butmode)
  from assms(2) have "released_twice clear"
    by (simp add: polls_end_def)
  then obtain c where "Clear_Button clear ?w = Some c"
    using Clear_Button_returns by blast
  with True b show ?thesis
    by (simp add: read_button_def Let_def)
next
  case False
  from assms(1) consider "butmode (Get_Button pin t) = 1" | "butmode (Get_Button pin t) = 2"
    by (auto simp add: registered_def)
  then show ?thesis
  proof cases
    case 1
    with False show ?thesis
      by (simp add: read_button_def Let_def)
  next
    case 2
    with False show ?thesis
      using long_press_returns [OF assms(2), of "Get_Button pin t"]
      by (simp add: read_button_def Let_def)
  qed
qed

text \<open>The encoder rotation and the pass of the loop after it.\<close>

lemma update_frame:
  "displaysleeping (update clk dt s) = displaysleeping s"
  "disp_on (update clk dt s) = disp_on s"
  "dimmed (update clk dt s) = dimmed s"
  "disp_dim (update clk dt s) = disp_dim s"
  "c_dst (update clk dt s) = c_dst s"
  "dst_start (update clk dt s) = dst_start s"
  by (simp_all add: update_def Let_def)

lemma update_rising:
  assumes "previousStateCLK s = LOW"
  shows "timeout (update HIGH dt s) = 0" "start_timeout (update HIGH dt s) = 0"
    "leds_off (update HIGH dt s) = 0"
  using assms by (simp_all add: update_def Let_def)

lemma prepare_lights_timer:
  "timeout (prepare_lights s) = timeout s"
  "start_timeout (prepare_lights s) = start_timeout s"
  "disp_on (prepare_lights s) = disp_on s"
  by (simp_all add: prepare_lights_def Let_def)

lemma restart_wakes:
  assumes "is_ASLEEP u \<or> displaysleeping u = 0 \<and> disp_on u" and "restart_check u"
  shows "woken_from u (timeout_handling u)"
  unfolding restart_pass [OF assms(2)] using assms(1)
  by (intro woken_by_wake) simp_all

lemma rotation_then_check:
  assumes "is_ASLEEP t \<or> display_on t" and "previousStateCLK t = LOW"
    and "not_moving (prepare_lights (sample tm d (update HIGH dt t)))"
  shows "woken_from (prepare_lights (sample tm d (update HIGH dt t)))
           (timeout_handling (prepare_lights (sample tm d (update HIGH dt t))))"
proof -
  let ?u = "prepare_lights (sample tm d (update HIGH dt t))"
  have f: "displaysleeping ?u = displaysleeping t" "disp_on ?u = disp_on t"
    by (simp_all add: prepare_lights_frame prepare_lights_timer sample_def update_frame)
  have r: "restart_check ?u"
    using assms(3) update_rising(1,2) [OF assms(2), of dt]
    by (simp add: restart_check_def prepare_lights_timer sample_def)
  have "is_ASLEEP ?u \<or> displaysleeping ?u = 0 \<and> disp_on ?u"
    using power_cases [OF assms(1)] f by (simp add: is_ASLEEP_def)
  then show ?thesis
    using r by (rule restart_wakes)
qed

text \<open>
  C5 (amended). With LED timeout 15 s and display timeout 15 s, for a vehicle in
  tracking range that does not move and a display that is on: a pass of the timeout
  handling with up to 15 s on the stationary timer (so with 14 s) leaves the system
  AWAKE, LEDs enabled and display bright; with more than 15 s and up to 30 s (so with
  16 s) it is DIMMED, LEDs suppressed and display dimmed but on; with more than 30 s (so
  with 31 s) it is ASLEEP, the display is powered off and a sleep window starts at the
  current uptime seconds.

  A manual wake event in a state \<open>t\<close> with the display asleep or on, as in each of
  the three states: a press of the encoder button or
  of the STORE button returns the system to AWAKE at once; so does a press of the READ
  button as soon as it is registered as a short or a long press, in every state the
  READ section returns, and the section returns when its polling loops are given
  rounds that end them. A rotation of the encoder leaves the display asleep or dimmed
  as it is; it resets the stationary timer, and the next pass of the timeout handling
  that finds the vehicle in range and not moving returns the system to AWAKE.

  Each of these wake-ups, if the display was asleep, closes the sleep window and adds
  to \<open>c_dst\<close> exactly the whole uptime seconds since the display was powered off
  (\<open>asleep_seconds\<close>, never negative); the time spent dimmed is not counted, and a
  wake-up while the display is on leaves \<open>c_dst\<close> unchanged.
\<close>

theorem stationary_timeouts_and_manual_wake:
  assumes "stationary_check s" and "displaysleeping s = 0" and "disp_on s"
    and "is_ASLEEP t \<or> display_on t"
  shows "(elapsed_stationary s \<le> 15 \<longrightarrow>
            is_AWAKE (timeout_handling s) \<and> c_dst (timeout_handling s) = c_dst s)
       \<and> (15 < elapsed_stationary s \<and> elapsed_stationary s \<le> 30 \<longrightarrow>
            is_DIMMED (timeout_handling s) \<and> c_dst (timeout_handling s) = c_dst s)
       \<and> (30 < elapsed_stationary s \<and> elapsed_stationary s < 32768 \<longrightarrow>
            is_ASLEEP (timeout_handling s) \<and> c_dst (timeout_handling s) = c_dst s
            \<and> dst_start (timeout_handling s) = up_sec (timeout_handling s))
       \<and> woken_from t (encoder_switch_pressed t)
       \<and> woken_from t (store_button_pressed t)
       \<and> (registered pin t \<and> read_button pin clear wait1 wait2 t = Some t' \<longrightarrow>
            woken_from t t')
       \<and> (registered pin t \<and> polls_end clear wait1 wait2 \<longrightarrow>
            (\<exists>r. read_button pin clear wait1 wait2 t = Some r))
       \<and> displaysleeping (update clk dt t) = displaysleeping t
       \<and> disp_on (update clk dt t) = disp_on t \<and> disp_dim (update clk dt t) = disp_dim t
       \<and> dimmed (update clk dt t) = dimmed t \<and> c_dst (update clk dt t) = c_dst t
       \<and> (previousStateCLK t = LOW
           \<and> not_moving (prepare_lights (sample tm d (update HIGH dt t))) \<longrightarrow>
            woken_from (prepare_lights (sample tm d (update HIGH dt t)))
              (timeout_handling (prepare_lights (sample tm d (update HIGH dt t)))))
       \<and> uint (asleep_seconds t) =
            max 0 (uint (up_sec (update_up_sec_from_millis t)) - uint (dst_start t))"
proof -
  have 1: "elapsed_stationary s \<le> 15 \<longrightarrow>
            is_AWAKE (timeout_handling s) \<and> c_dst (timeout_handling s) = c_dst s"
    using stationary_awake [OF assms(1-3)] by blast
  have 2: "15 < elapsed_stationary s \<and> elapsed_stationary s \<le> 30 \<longrightarrow>
            is_DIMMED (timeout_handling s) \<and> c_dst (timeout_handling s) = c_dst s"
    using stationary_dimmed [OF assms(1-3)] by blast
  have 3: "30 < elapsed_stationary s \<and> elapsed_stationary s < 32768 \<longrightarrow>
            is_ASLEEP (timeout_handling s) \<and> c_dst (timeout_handling s) = c_dst s
            \<and> dst_start (timeout_handling s) = up_sec (timeout_handling s)"
    using stationary_asleep [OF assms(1-3)] by blast
  have 4: "woken_from t (encoder_switch_pressed t)"
    using assms(4) by (rule encoder_wakes)
  have 5: "woken_from t (store_button_pressed t)"
    using assms(4) by (rule store_wakes)
  have 6: "registered pin t \<and> read_button pin clear wait1 wait2 t = Some t' \<longrightarrow>
            woken_from t t'"
    using read_button_wakes [OF assms(4)] by blast
  have 7: "registered pin t \<and> polls_end clear wait1 wait2 \<longrightarrow>
            (\<exists>r. read_button pin clear wait1 wait2 t = Some r)"
    using read_button_returns by blast
  have 8: "displaysleeping (update clk dt t) = displaysleeping t
       \<and> disp_on (update clk dt t) = disp_on t \<and> disp_dim (update clk dt t) = disp_dim t
       \<and> dimmed (update clk dt t) = dimmed t \<and> c_dst (update clk dt t) = c_dst t"
    by (simp add: update_frame)
  have 9: "previousStateCLK t = LOW
           \<and> not_moving (prepare_lights (sample tm d (update HIGH dt t))) \<longrightarrow>
            woken_from (prepare_lights (sample tm d (update HIGH dt t)))
              (timeout_handling (prepare_lights (sample tm d (update HIGH dt t))))"
    using rotation_then_check [OF assms(4)] by blast
  have 10: "uint (asleep_seconds t) =
            max 0 (uint (up_sec (update_up_sec_from_millis t)) - uint (dst_start t))"
    by (rule asleep_seconds_uint)
  from 1 2 3 4 5 6 7 8 9 10 show ?thesis
    by blast
qed

text \<open>The run of the parked car, state by state.\<close>

lemmas run_defs = sample_def prepare_lights_def timeout_handling_def stationary_timer_def
  reset_LEDTimeout_def wakeDisplay_def go_sleepDisplay_def sleepDisplay_def delay_def
  update_up_sec_from_millis_def serial_out_def Let_def
  range_min_def range_max_def range_diff_def warning_limit_def light0s_def light2s_def light3s_def
  LED_TIMEOUT_def DISPLAY_TIMEOUT_def c_div_def to_int16_def int16_id f32_zero f32_50

lemma parked_eq:
  "parked = boot\<lparr>now_ms := 2000, distance := 50, distance1 := 50, last_dist := 50,
     light0 := 15, light1 := 30, light2 := 60, light3 := 90,
     last_move := 2000, last_outofrange := 2000, start_timeout := 2000\<rparr>"
  by (simp add: parked_def boot_def run_defs)

lemma at14_eq: "at14 = parked\<lparr>now_ms := 16000\<rparr>"
  unfolding at14_def parked_eq by (simp add: boot_def run_defs)

lemma after14_eq:
  "timeout_handling at14 = parked\<lparr>now_ms := 16000, last_move := 16000,
     last_outofrange := 16000, move_ps := 0, timeout := 14\<rparr>"
  unfolding at14_eq parked_eq by (simp add: boot_def run_defs)

lemma at16_eq:
  "at16 = parked\<lparr>now_ms := 18000, last_move := 16000,
     last_outofrange := 16000, move_ps := 0, timeout := 14\<rparr>"
  unfolding at16_def after14_eq by (simp add: parked_eq boot_def run_defs)

lemma after16_eq:
  "timeout_handling at16 = parked\<lparr>now_ms := 18000, last_move := 18000,
     last_outofrange := 18000, move_ps := 0, timeout := 16, leds_off := 1, disp_dim := True,
     dimmed := 1\<rparr>"
  unfolding at16_eq by (simp add: parked_eq boot_def run_defs)

lemma at31_eq:
  "at31 = parked\<lparr>now_ms := 33000, last_move := 18000,
     last_outofrange := 18000, move_ps := 0, timeout := 16, leds_off := 1, disp_dim := True,
     dimmed := 1\<rparr>"
  unfolding at31_def after16_eq by (simp add: parked_eq boot_def run_defs)

lemma after31_eq:
  "timeout_handling at31 = parked\<lparr>now_ms := 34000, last_move := 33000,
     last_outofrange := 33000, move_ps := 0, timeout := 31, leds_off := 1, disp_dim := True,
     dimmed := 1, displaysleeping := 1, disp_on := False,
     oled := [''Display'' @ [CHR 0x0A] @ ''--> Sleep''],
     up_mi := 34000, up_mi_old := 34000, diff_mi := 34000, diff_sec := 34, up_sec := 34,
     up_sec_old := 34, dst_start := 34\<rparr>"
  unfolding at31_eq by (simp add: parked_eq boot_def run_defs)

lemma at14_facts:
  "stationary_check at14" "displaysleeping at14 = 0" "disp_on at14" "elapsed_stationary at14 = 14"
  unfolding at14_eq parked_eq
  by (simp_all add: boot_def stationary_check_def not_moving_def elapsed_stationary_def
      range_diff_def f32_zero)

lemma at16_facts:
  "stationary_check at16" "displaysleeping at16 = 0" "disp_on at16" "elapsed_stationary at16 = 16"
  unfolding at16_eq parked_eq
  by (simp_all add: boot_def stationary_check_def not_moving_def elapsed_stationary_def
      range_diff_def f32_zero)

lemma at31_facts:
  "stationary_check at31" "displaysleeping at31 = 0" "disp_on at31" "elapsed_stationary at31 = 31"
  unfolding at31_eq parked_eq
  by (simp_all add: boot_def stationary_check_def not_moving_def elapsed_stationary_def
      range_diff_def f32_zero)

lemma at100_facts:
  "is_ASLEEP at100" "c_dst at100 = 0" "now_ms at100 = 100000" "dst_start at100 = 34"
  "up_sec at100 = 34" "up_mi_old at100 = 34000" "butEETimePressed at100 = 0"
  "butmode at100 = 0" "previousStateCLK at100 = LOW" "displaysleeping at100 = 1"
  unfolding at100_def after31_eq parked_eq
  by (simp_all add: boot_def sample_def is_ASLEEP_def LOW_def)

lemma at100_asleep_seconds: "asleep_seconds at100 = 66"
  by (simp add: asleep_seconds_def upd_up_sec at100_facts)

lemma after16_facts:
  "is_DIMMED (timeout_handling at16)" "c_dst (timeout_handling at16) = 0"
  "now_ms (timeout_handling at16) = 18000"
  unfolding after16_eq parked_eq
  by (simp_all add: boot_def is_DIMMED_def)

lemma after31_facts:
  "is_ASLEEP (timeout_handling at31)" "now_ms (timeout_handling at31) = 34000"
  "dst_start (timeout_handling at31) = 34" "c_dst (timeout_handling at31) = 0"
  unfolding after31_eq parked_eq
  by (simp_all add: boot_def is_ASLEEP_def)

lemma Get_Button_down:
  "butEETimePressed s = 0 \<Longrightarrow>
     Get_Button LOW s = s\<lparr>butEEState := LOW, butEETimePressed := now_ms s\<rparr>"
  by (simp add: Get_Button_def Let_def)

lemma Get_Button_up:
  "butEETimePressed s \<noteq> 0 \<Longrightarrow>
     butmode (Get_Button HIGH s) =
       (if now_ms s - butEETimePressed s > 3000 then 2
        else if now_ms s - butEETimePressed s < 1000 then 1 else 0)"
  by (simp add: Get_Button_def Let_def HIGH_def LOW_def word_greater_zero_iff)

lemma read_down_eq: "read_down = at100\<lparr>butEEState := LOW, butEETimePressed := 100000\<rparr>"
  by (simp add: read_down_def Get_Button_down at100_facts)

lemma read_down_facts:
  "is_ASLEEP read_down" "butmode read_down = 0" "displaysleeping read_down = 1"
  using at100_facts(1) by (simp_all add: read_down_eq is_ASLEEP_def at100_facts)

lemma read_up_300_facts:
  "is_ASLEEP read_up_300" "registered HIGH read_up_300" "c_dst read_up_300 = 0"
  "asleep_seconds read_up_300 = 66"
proof -
  have e: "read_up_300 = at100\<lparr>butEEState := LOW, butEETimePressed := 100000,
             now_ms := 100300, distance := 50\<rparr>"
    by (simp add: read_up_300_def sample_def read_down_eq)
  show "is_ASLEEP read_up_300"
    using at100_facts(1) by (simp add: e is_ASLEEP_def)
  have "butmode (Get_Button HIGH read_up_300) = 1"
    by (subst Get_Button_up) (simp_all add: e)
  then show "registered HIGH read_up_300"
    by (simp add: registered_def)
  show "c_dst read_up_300 = 0"
    by (simp add: e at100_facts)
  show "asleep_seconds read_up_300 = 66"
    by (simp add: e asleep_seconds_def upd_up_sec at100_facts)
qed

lemma read_up_2000_facts:
  "butmode (Get_Button HIGH read_up_2000) = 0" "is_ASLEEP (Get_Button HIGH read_up_2000)"
proof -
  have e: "read_up_2000 = at100\<lparr>butEEState := LOW, butEETimePressed := 100000,
             now_ms := 102000, distance := 50\<rparr>"
    by (simp add: read_up_2000_def sample_def read_down_eq)
  show "butmode (Get_Button HIGH read_up_2000) = 0"
    by (subst Get_Button_up) (simp_all add: e)
  show "is_ASLEEP (Get_Button HIGH read_up_2000)"
    using at100_facts(1) by (simp add: e is_ASLEEP_def Get_Button_frame)
qed

lemma polls_end_example:
  "polls_end [(100310, HIGH), (100320, HIGH)] [(116000, HIGH)] [(177000, HIGH)]"
  by (simp add: polls_end_def expires_after_def)

lemma at100_eq:
  "at100 = parked\<lparr>now_ms := 100000, last_move := 33000,
     last_outofrange := 33000, move_ps := 0, timeout := 31, leds_off := 1, disp_dim := True,
     dimmed := 1, displaysleeping := 1, disp_on := False,
     oled := [''Display'' @ [CHR 0x0A] @ ''--> Sleep''],
     up_mi := 34000, up_mi_old := 34000, diff_mi := 34000, diff_sec := 34, up_sec := 34,
     up_sec_old := 34, dst_start := 34\<rparr>"
  unfolding at100_def after31_eq parked_eq by (simp add: boot_def sample_def)

lemma turned_eq:
  "turned = at100\<lparr>now_ms := 100600, currentStateCLK := HIGH, previousStateCLK := HIGH,
     start_timeout := 0, timeout := 0, leds_off := 0\<rparr>"
  unfolding turned_def at100_eq parked_eq
  by (simp add: update_def LOW_def boot_def run_defs)

lemma turned_facts:
  "not_moving turned" "is_ASLEEP turned" "c_dst turned = 0" "asleep_seconds turned = 66"
proof -
  show "not_moving turned"
    unfolding turned_eq at100_eq parked_eq
    by (simp add: boot_def not_moving_def range_diff_def f32_zero)
  show "is_ASLEEP turned"
    using at100_facts(1) by (simp add: turned_eq is_ASLEEP_def)
  show "c_dst turned = 0"
    by (simp add: turned_eq at100_facts)
  show "asleep_seconds turned = 66"
    by (simp add: turned_eq asleep_seconds_def upd_up_sec at100_facts)
qed

text \<open>
  The parked car: AWAKE after 14 s, DIMMED after 16 s, ASLEEP after 31 s. At 100 s
  the encoder button, the STORE button, a short press of the READ button or a step of
  the encoder wake the system, and 66 sleep seconds are recorded; the encoder button
  pressed while the display is dimmed wakes it and records nothing.
\<close>

theorem stationary_timeouts_and_manual_wake_witness:
  "stationary_check at14 \<and> displaysleeping at14 = 0 \<and> disp_on at14
   \<and> elapsed_stationary at14 = 14 \<and> is_AWAKE (timeout_handling at14)
   \<and> stationary_check at16 \<and> displaysleeping at16 = 0 \<and> disp_on at16
   \<and> elapsed_stationary at16 = 16 \<and> is_DIMMED (timeout_handling at16)
   \<and> stationary_check at31 \<and> displaysleeping at31 = 0 \<and> disp_on at31
   \<and> elapsed_stationary at31 = 31 \<and> is_ASLEEP (timeout_handling at31)
   \<and> dst_start (timeout_handling at31) = up_sec (timeout_handling at31)
   \<and> is_ASLEEP at100 \<and> is_AWAKE (encoder_switch_pressed at100)
   \<and> c_dst (encoder_switch_pressed at100) = 66
   \<and> is_AWAKE (store_button_pressed at100) \<and> c_dst (store_button_pressed at100) = 66
   \<and> is_AWAKE (encoder_switch_pressed (timeout_handling at16))
   \<and> c_dst (encoder_switch_pressed (timeout_handling at16)) = 0
   \<and> is_ASLEEP read_up_300 \<and> registered HIGH read_up_300
   \<and> polls_end [(100310, HIGH), (100320, HIGH)] [(116000, HIGH)] [(177000, HIGH)]
   \<and> (\<exists>r. read_button HIGH [(100310, HIGH), (100320, HIGH)] [(116000, HIGH)]
               [(177000, HIGH)] read_up_300 = Some r
            \<and> is_AWAKE r \<and> c_dst r = 66)
   \<and> previousStateCLK at100 = LOW \<and> is_ASLEEP (update HIGH HIGH at100)
   \<and> not_moving turned \<and> is_ASLEEP turned
   \<and> is_AWAKE (timeout_handling turned) \<and> c_dst (timeout_handling turned) = 66"
proof -
  let ?c = "[(100310, HIGH), (100320, HIGH)]" and ?w1 = "[(116000, HIGH)]"
    and ?w2 = "[(177000, HIGH)]"
  have p100: "is_ASLEEP at100 \<or> display_on at100"
    and p16: "is_ASLEEP (timeout_handling at16) \<or> display_on (timeout_handling at16)"
    and p300: "is_ASLEEP read_up_300 \<or> display_on read_up_300"
    using display_on_states [of "timeout_handling at16"]
    by (simp_all add: at100_facts after16_facts read_up_300_facts)
  have n16: "\<not> is_ASLEEP (timeout_handling at16)"
    using not_asleep [of "timeout_handling at16"] display_on_states [of "timeout_handling at16"]
      after16_facts(1) by simp
  have a: "is_AWAKE (timeout_handling at14)"
    using stationary_timeouts_and_manual_wake [OF at14_facts(1,2,3) p100] at14_facts(4)
    by simp
  have b: "is_DIMMED (timeout_handling at16)"
    using stationary_timeouts_and_manual_wake [OF at16_facts(1,2,3) p100] at16_facts(4)
    by simp
  have c: "is_ASLEEP (timeout_handling at31)
      \<and> dst_start (timeout_handling at31) = up_sec (timeout_handling at31)"
    using stationary_timeouts_and_manual_wake [OF at31_facts(1,2,3) p100] at31_facts(4)
    by simp
  have d0: "woken_from at100 (encoder_switch_pressed at100)
      \<and> woken_from at100 (store_button_pressed at100)
      \<and> displaysleeping (update HIGH HIGH at100) = displaysleeping at100
      \<and> disp_on (update HIGH HIGH at100) = disp_on at100"
    using stationary_timeouts_and_manual_wake
            [OF at14_facts(1,2,3) p100, where clk = HIGH and dt = HIGH]
    by blast
  have d: "woken_from at100 (encoder_switch_pressed at100)
      \<and> woken_from at100 (store_button_pressed at100)
      \<and> is_ASLEEP (update HIGH HIGH at100)"
    using d0 at100_facts(1) by (simp add: is_ASLEEP_def)
  have e: "woken_from (timeout_handling at16) (encoder_switch_pressed (timeout_handling at16))"
    using stationary_timeouts_and_manual_wake [OF at14_facts(1,2,3) p16] by simp
  have "\<exists>r. read_button HIGH ?c ?w1 ?w2 read_up_300 = Some r"
    using stationary_timeouts_and_manual_wake
            [OF at14_facts(1,2,3) p300, where pin = HIGH and clear = ?c and ?wait1.0 = ?w1
              and ?wait2.0 = ?w2]
      read_up_300_facts(2) polls_end_example
    by blast
  then obtain r where r: "read_button HIGH ?c ?w1 ?w2 read_up_300 = Some r" ..
  have f: "woken_from read_up_300 r"
    using stationary_timeouts_and_manual_wake
            [OF at14_facts(1,2,3) p300, where pin = HIGH and clear = ?c and ?wait1.0 = ?w1
              and ?wait2.0 = ?w2 and t' = r]
      read_up_300_facts(2) r
    by blast
  have g: "woken_from turned (timeout_handling turned)"
    using stationary_timeouts_and_manual_wake
            [OF at14_facts(1,2,3) p100, where dt = HIGH and tm = 100600 and d = 50]
      at100_facts(9) turned_facts(1)
    unfolding turned_def [symmetric] by blast
  have h: "\<exists>r. read_button HIGH ?c ?w1 ?w2 read_up_300 = Some r \<and> is_AWAKE r \<and> c_dst r = 66"
    using r f by (simp add: woken_from_def read_up_300_facts)
  show ?thesis
    using a b c d e g h n16
    by (simp add: woken_from_def at14_facts at16_facts at31_facts at100_facts
        at100_asleep_seconds after16_facts read_up_300_facts turned_facts polls_end_example)
qed

text \<open>
  The claim as first stated fails on the parked car. Dimmed since 18 s, asleep since
  34 s and woken by the encoder button at 100 s, 82 s have passed since the dimming but
  \<open>c_dst\<close> grows by 66: the dimmed time is not counted. A step of the encoder at 100 s
  leaves the display asleep when the interrupt routine returns. And the READ button
  held from 100 s to 102 s is not registered as a press: the display stays asleep.
\<close>

theorem manual_wake_counterexample:
  "is_DIMMED (timeout_handling at16) \<and> now_ms (timeout_handling at16) = 18000
   \<and> c_dst (timeout_handling at16) = 0
   \<and> is_ASLEEP (timeout_handling at31) \<and> now_ms (timeout_handling at31) = 34000
   \<and> now_ms at100 = 100000
   \<and> is_AWAKE (encoder_switch_pressed at100)
   \<and> unat (c_dst (encoder_switch_pressed at100) - c_dst (timeout_handling at16)) = 66
   \<and> unat (now_ms at100 - now_ms (timeout_handling at31)) div 1000 = 66
   \<and> unat (now_ms at100 - now_ms (timeout_handling at16)) div 1000 = 82
   \<and> unat (c_dst (encoder_switch_pressed at100) - c_dst (timeout_handling at16))
       \<noteq> unat (now_ms at100 - now_ms (timeout_handling at16)) div 1000
   \<and> is_ASLEEP at100 \<and> previousStateCLK at100 = LOW
   \<and> is_ASLEEP (update HIGH HIGH at100) \<and> \<not> is_AWAKE (update HIGH HIGH at100)
   \<and> read_button LOW [] [] [] at100 = Some read_down \<and> is_ASLEEP read_down
   \<and> read_button HIGH [] [] [] read_up_2000 = Some (Get_Button HIGH read_up_2000)
   \<and> is_ASLEEP (Get_Button HIGH read_up_2000)
   \<and> \<not> is_AWAKE (Get_Button HIGH read_up_2000)"
proof -
  have p100: "is_ASLEEP at100 \<or> display_on at100"
    by (simp add: at100_facts)
  have e: "woken_from at100 (encoder_switch_pressed at100)"
    using p100 by (rule encoder_wakes)
  have n: "is_ASLEEP x \<Longrightarrow> \<not> is_AWAKE x" for x
    by (simp add: is_ASLEEP_def is_AWAKE_def)
  have u: "is_ASLEEP (update HIGH HIGH at100)"
    using at100_facts(1) by (simp add: is_ASLEEP_def update_frame)
  have r1: "read_button LOW [] [] [] at100 = Some read_down"
    using read_down_facts(2) by (simp add: read_button_def Let_def read_down_def [symmetric])
  have r2: "read_button HIGH [] [] [] read_up_2000 = Some (Get_Button HIGH read_up_2000)"
    using read_up_2000_facts(1) by (simp add: read_button_def Let_def)
  show ?thesis
    using e u n [OF u] r1 r2 n [OF read_up_2000_facts(2)]
    by (simp add: woken_from_def at100_facts at100_asleep_seconds after16_facts after31_facts
        read_down_facts read_up_2000_facts)
qed

end
